theory Spec2Isabelle
  imports Complex_Main "HOL-Library.AList" "HOL-Library.Log_Nat"
begin

section \<open>Python values used by heredity.py\<close>

text \<open>
  The program computes with Python floats. Its functions are embedded twice. In the first
  embedding a float is a \<^typ>\<open>real\<close> and every arithmetic operation is exact; it serves
  the properties that do not depend on rounding: which branch runs, what is enumerated,
  which exception is raised, and the probability that the formulas of the program denote.
  In the second embedding, whose names end in 64, a float is an IEEE 754 binary64 value
  and every operation rounds as the machine does; it serves the properties that speak of
  the values the program computes.

  Names of persons are strings; a parent reference is a name or Python's \<open>None\<close>, hence a
  \<^typ>\<open>string option\<close>; an observed trait is \<open>True\<close>, \<open>False\<close> or \<open>None\<close>, hence a
  \<^typ>\<open>bool option\<close>.

  A Python \<open>dict\<close> is an association list in insertion order whose keys are distinct.
  A Python \<open>set\<close> of names that the program iterates over is a list without duplicates
  (the iteration order of a set is not specified by Python; the model fixes one), and a
  set that is only tested for membership is a HOL set.
\<close>

datatype py_error = KeyError | TypeError | ZeroDivisionError

type_synonym ('k, 'v) dict = "('k \<times> 'v) list"

text \<open>\<open>d[k]\<close> raises \<open>KeyError\<close> on a missing key.\<close>

definition getitem :: "('k, 'v) dict \<Rightarrow> 'k \<Rightarrow> py_error + 'v" where
  "getitem d k = (case map_of d k of None \<Rightarrow> Inl KeyError | Some v \<Rightarrow> Inr v)"

text \<open>\<open>d[k] = v\<close> replaces the value of an existing key in place and appends a new key.\<close>

definition setitem :: "('k, 'v) dict \<Rightarrow> 'k \<Rightarrow> 'v \<Rightarrow> ('k, 'v) dict" where
  "setitem d k v = AList.update k v d"

text \<open>Sequencing of two computations, the first of which may raise.\<close>

fun and_then :: "py_error + 'a \<Rightarrow> ('a \<Rightarrow> py_error + 'b) \<Rightarrow> py_error + 'b" where
  "and_then (Inl e) f = Inl e"
| "and_then (Inr x) f = f x"

text \<open>
  \<open>for x in xs: body\<close>, where the body updates the state \<open>s\<close> and an exception raised
  by the body leaves the loop.
\<close>

fun for_loop :: "'a list \<Rightarrow> ('a \<Rightarrow> 's \<Rightarrow> py_error + 's) \<Rightarrow> 's \<Rightarrow> py_error + 's" where
  "for_loop [] body s = Inr s"
| "for_loop (x # xs) body s = and_then (body x s) (for_loop xs body)"

text \<open>\<open>for k in d: d[k] = f(k, d[k])\<close>: the keys are those of \<open>d\<close> when the loop starts.\<close>

definition update_each ::
  "('k \<Rightarrow> 'v \<Rightarrow> py_error + 'v) \<Rightarrow> ('k, 'v) dict \<Rightarrow> py_error + ('k, 'v) dict" where
  "update_each f d =
     for_loop (map fst d)
       (\<lambda>k d'. and_then (getitem d' k) (\<lambda>v. and_then (f k v) (\<lambda>v'. Inr (setitem d' k v'))))
       d"

text \<open>
  The product of two results of \<open>inherit\<close>: that function returns \<open>None\<close> when no branch
  is taken, and \<open>None * x\<close> raises \<open>TypeError\<close>.
\<close>

fun py_mul :: "real option \<Rightarrow> real option \<Rightarrow> py_error + real" where
  "py_mul (Some a) (Some b) = Inr (a * b)"
| "py_mul _ _ = Inl TypeError"

text \<open>\<open>x / s\<close> on floats raises \<open>ZeroDivisionError\<close> when \<open>s\<close> is zero.\<close>

definition py_div :: "real \<Rightarrow> real \<Rightarrow> py_error + real" where
  "py_div x s = (if s = 0 then Inl ZeroDivisionError else Inr (x / s))"

text \<open>\<open>x in s\<close> for \<open>x\<close> a name or \<open>None\<close> and \<open>s\<close> a set of names.\<close>

fun py_in :: "string option \<Rightarrow> string set \<Rightarrow> bool" where
  "py_in None s = False"
| "py_in (Some x) s = (x \<in> s)"

section \<open>The probability tables\<close>

definition PROBS_gene :: "(nat, real) dict" where
  "PROBS_gene = [(2, 0.01), (1, 0.03), (0, 0.96)]"

definition PROBS_trait :: "(nat, (bool, real) dict) dict" where
  "PROBS_trait =
     [(2, [(True, 0.65), (False, 0.35)]),
      (1, [(True, 0.56), (False, 0.44)]),
      (0, [(True, 0.01), (False, 0.99)])]"

definition PROBS_mutation :: real where
  "PROBS_mutation = 0.01"

section \<open>The pedigree and the accumulators\<close>

text \<open>One row of the pedigree, as \<open>load_data\<close> builds it.\<close>

record person =
  name :: string
  mother :: "string option"
  father :: "string option"
  trait :: "bool option"

type_synonym people = "(string, person) dict"

text \<open>
  The value \<open>probabilities[person]\<close>: the dictionaries under the keys \<open>"gene"\<close> and
  \<open>"trait"\<close>.
\<close>

record distributions =
  gene_dist :: "(nat, real) dict"
  trait_dist :: "(bool, real) dict"

type_synonym probabilities = "(string, distributions) dict"

section \<open>powerset\<close>

text \<open>\<open>itertools.combinations(s, r)\<close>: the sublists of length \<open>r\<close>, in index order.\<close>

fun combinations :: "'a list \<Rightarrow> nat \<Rightarrow> 'a list list" where
  "combinations xs 0 = [[]]"
| "combinations [] (Suc r) = []"
| "combinations (x # xs) (Suc r) = map ((#) x) (combinations xs r) @ combinations xs (Suc r)"

definition powerset :: "'a list \<Rightarrow> 'a list list" where
  "powerset s = concat (map (combinations s) [0..<length s + 1])"

section \<open>getGene and inherit\<close>

definition getGene :: "string option \<Rightarrow> string set \<Rightarrow> string set \<Rightarrow> nat" where
  "getGene p one_gene two_gene =
     (if py_in p one_gene then 1 else if py_in p two_gene then 2 else 0)"

definition inherit :: "nat \<Rightarrow> bool \<Rightarrow> real option" where
  "inherit parent_gene t =
     (if parent_gene = 0 then Some (if t then PROBS_mutation else 1 - PROBS_mutation)
      else if parent_gene = 1 then Some 0.5
      else if parent_gene = 2 then Some (if t then 1 - PROBS_mutation else PROBS_mutation)
      else None)"

section \<open>joint_probability\<close>

text \<open>\<open>PROBS["trait"][g][t]\<close>.\<close>

definition PROBS_trait_at :: "nat \<Rightarrow> bool \<Rightarrow> py_error + real" where
  "PROBS_trait_at g t = and_then (getitem PROBS_trait g) (\<lambda>d. getitem d t)"

text \<open>The body of the loop of \<open>joint_probability\<close> for one person, a key of \<open>people\<close>.\<close>

definition joint_probability_body ::
  "people \<Rightarrow> string set \<Rightarrow> string set \<Rightarrow> string set \<Rightarrow> string \<Rightarrow> real \<Rightarrow> py_error + real"
  where
  "joint_probability_body people one_gene two_genes have_trait p probability =
     and_then (getitem people p) (\<lambda>row.
       let mom = mother row;
           dad = father row;
           personTrait = (if p \<in> have_trait then True else False);
           personGene = getGene (Some p) one_gene two_genes
       in
         if dad = None \<and> mom = None then
           and_then (PROBS_trait_at personGene personTrait) (\<lambda>pt.
           and_then (getitem PROBS_gene personGene) (\<lambda>pg.
             Inr (probability * (pt * pg))))
         else
           let mom_genes = getGene mom one_gene two_genes;
               dad_genes = getGene dad one_gene two_genes
           in
             and_then
               (if personGene = 0 then
                  and_then (py_mul (inherit mom_genes False) (inherit dad_genes False)) (\<lambda>x.
                    Inr (probability * x))
                else if personGene = 1 then
                  and_then (py_mul (inherit mom_genes True) (inherit dad_genes False)) (\<lambda>x.
                  and_then (py_mul (inherit mom_genes False) (inherit dad_genes True)) (\<lambda>y.
                    Inr (probability * (x + y))))
                else if personGene = 2 then
                  and_then (py_mul (inherit mom_genes True) (inherit dad_genes True)) (\<lambda>x.
                    Inr (probability * x))
                else Inr probability)
               (\<lambda>probability'.
                  and_then (PROBS_trait_at personGene personTrait) (\<lambda>pt.
                    Inr (probability' * pt))))"

definition joint_probability ::
  "people \<Rightarrow> string set \<Rightarrow> string set \<Rightarrow> string set \<Rightarrow> py_error + real" where
  "joint_probability people one_gene two_genes have_trait =
     for_loop (map fst people) (joint_probability_body people one_gene two_genes have_trait) 1"

section \<open>update and normalize\<close>

text \<open>\<open>d[k] += p\<close>.\<close>

definition iadd :: "('k, real) dict \<Rightarrow> 'k \<Rightarrow> real \<Rightarrow> py_error + ('k, real) dict" where
  "iadd d k p = and_then (getitem d k) (\<lambda>v. Inr (setitem d k (v + p)))"

definition update_person ::
  "string set \<Rightarrow> string set \<Rightarrow> string set \<Rightarrow> real \<Rightarrow> string \<Rightarrow> distributions
     \<Rightarrow> py_error + distributions" where
  "update_person one_gene two_genes have_trait p pers entry =
     (let personGene = getGene (Some pers) one_gene two_genes;
          personTrait = (if pers \<in> have_trait then True else False)
      in and_then (iadd (gene_dist entry) personGene p) (\<lambda>g.
         and_then (iadd (trait_dist entry) personTrait p) (\<lambda>t.
           Inr \<lparr>gene_dist = g, trait_dist = t\<rparr>)))"

definition update ::
  "probabilities \<Rightarrow> string set \<Rightarrow> string set \<Rightarrow> string set \<Rightarrow> real \<Rightarrow> py_error + probabilities"
  where
  "update probs one_gene two_genes have_trait p =
     update_each (update_person one_gene two_genes have_trait p) probs"

text \<open>
  The two inner loops of \<open>normalize\<close>: every value of the dictionary is divided by the sum
  that was computed before the loop.
\<close>

definition divide_all :: "('k, real) dict \<Rightarrow> real \<Rightarrow> py_error + ('k, real) dict" where
  "divide_all d s = update_each (\<lambda>k v. py_div v s) d"

definition normalize_person :: "string \<Rightarrow> distributions \<Rightarrow> py_error + distributions" where
  "normalize_person pers entry =
     (let sum_gene = sum_list (map snd (gene_dist entry));
          sum_trait = sum_list (map snd (trait_dist entry))
      in and_then (divide_all (trait_dist entry) sum_trait) (\<lambda>t.
         and_then (divide_all (gene_dist entry) sum_gene) (\<lambda>g.
           Inr \<lparr>gene_dist = g, trait_dist = t\<rparr>)))"

definition normalize :: "probabilities \<Rightarrow> py_error + probabilities" where
  "normalize probs = update_each normalize_person probs"

section \<open>main\<close>

text \<open>
  \<open>any(people[person]["trait"] is not None and people[person]["trait"] != (person in
  have_trait) for person in names)\<close>; the state of the loop is whether a conflict was
  found, and \<open>any\<close> stops at the first one.
\<close>

definition fails_evidence :: "people \<Rightarrow> string list \<Rightarrow> string set \<Rightarrow> py_error + bool" where
  "fails_evidence people names have_trait =
     for_loop names
       (\<lambda>p found.
          if found then Inr True
          else and_then (getitem people p) (\<lambda>row.
                 Inr (trait row \<noteq> None \<and> trait row \<noteq> Some (p \<in> have_trait))))
       False"

text \<open>The initial table of \<open>main\<close>.\<close>

definition initial_probabilities :: "people \<Rightarrow> probabilities" where
  "initial_probabilities people =
     map (\<lambda>p. (p, \<lparr>gene_dist = [(2, 0), (1, 0), (0, 0)],
                    trait_dist = [(True, 0), (False, 0)]\<rparr>))
       (map fst people)"

text \<open>\<open>names - one_gene\<close>.\<close>

definition set_minus :: "string list \<Rightarrow> string list \<Rightarrow> string list" where
  "set_minus names one_gene = filter (\<lambda>x. x \<notin> set one_gene) names"

text \<open>The statement executed for one hypothesis: lines 81 and 82.\<close>

definition accumulate ::
  "people \<Rightarrow> string list \<Rightarrow> string list \<Rightarrow> string list \<Rightarrow> probabilities
     \<Rightarrow> py_error + probabilities" where
  "accumulate people have_trait one_gene two_genes probs =
     and_then (joint_probability people (set one_gene) (set two_genes) (set have_trait)) (\<lambda>p.
       update probs (set one_gene) (set two_genes) (set have_trait) p)"

text \<open>The three nested loops of \<open>main\<close>, lines 65 to 82.\<close>

definition enumeration :: "people \<Rightarrow> probabilities \<Rightarrow> py_error + probabilities" where
  "enumeration people probs0 =
     (let names = map fst people in
      for_loop (powerset names)
        (\<lambda>have_trait probs.
           and_then (fails_evidence people names (set have_trait)) (\<lambda>fails.
             if fails then Inr probs
             else
               for_loop (powerset names)
                 (\<lambda>one_gene probs'.
                    for_loop (powerset (set_minus names one_gene))
                      (\<lambda>two_genes. accumulate people have_trait one_gene two_genes)
                      probs')
                 probs))
        probs0)"

text \<open>
  \<open>main\<close> from the pedigree on: the table that \<open>main\<close> prints, or the exception that
  ends the run.
\<close>

definition main :: "people \<Rightarrow> py_error + probabilities" where
  "main people = and_then (enumeration people (initial_probabilities people)) normalize"

section \<open>Binary64 arithmetic\<close>

text \<open>
  A finite binary64 value is a real number of the form \<open>m * 2 ^ e\<close> with an integer
  \<open>m\<close> of at most 53 bits and \<open>e\<close> at least -1074. The result of an operation is the
  exact result rounded to the nearest such number, a tie going to the even \<open>m\<close>; a
  rounded result of magnitude \<open>2 ^ 1024\<close> or more is an infinity. The two zeros of
  binary64 are one value here: the program divides by a zero of either sign with the same
  exception and never looks at the sign of a zero.

  The power of two with an integer exponent.
\<close>

definition two_powi :: "int \<Rightarrow> real" where
  "two_powi e = (if 0 \<le> e then 2 ^ nat e else 1 / 2 ^ nat (- e))"

text \<open>The integer part of the binary logarithm of \<open>\<bar>x\<bar>\<close>, for \<open>x\<close> other than 0.\<close>

definition ilog2 :: "real \<Rightarrow> int" where
  "ilog2 x =
     (let a = \<bar>x\<bar> in
      if 1 \<le> a then bitlen \<lfloor>a\<rfloor> - 1
      else (let k = bitlen \<lfloor>1 / a\<rfloor> in if two_powi (1 - k) \<le> a then 1 - k else - k))"

text \<open>The nearest integer, a tie going to the even one.\<close>

definition round_half_even :: "real \<Rightarrow> int" where
  "round_half_even y =
     (let n = \<lfloor>y\<rfloor>; r = y - of_int n
      in if r < 1 / 2 then n else if 1 / 2 < r then n + 1 else if even n then n else n + 1)"

text \<open>Rounding to 53 significant bits, or to a multiple of \<open>2 ^ -1074\<close> below \<open>2 ^ -1022\<close>.\<close>

definition round64 :: "real \<Rightarrow> real" where
  "round64 x =
     (if x = 0 then 0
      else let e = max (ilog2 x - 52) (- 1074)
           in of_int (round_half_even (x / two_powi e)) * two_powi e)"

datatype double = Finite real | PosInf | NegInf | NaN

text \<open>The binary64 value that an exact result rounds to.\<close>

definition to_double :: "real \<Rightarrow> double" where
  "to_double x =
     (let r = round64 x
      in if 2 ^ 1024 \<le> r then PosInf else if r \<le> - (2 ^ 1024) then NegInf else Finite r)"

fun is_negative :: "double \<Rightarrow> bool" where
  "is_negative (Finite x) = (x < 0)"
| "is_negative NegInf = True"
| "is_negative _ = False"

definition infinity :: "bool \<Rightarrow> double" where
  "infinity negative = (if negative then NegInf else PosInf)"

fun neg64 :: "double \<Rightarrow> double" where
  "neg64 (Finite x) = Finite (- x)"
| "neg64 PosInf = NegInf"
| "neg64 NegInf = PosInf"
| "neg64 NaN = NaN"

text \<open>\<open>x + y\<close>, \<open>x - y\<close> and \<open>x * y\<close> on floats; none of them raises.\<close>

fun add64 :: "double \<Rightarrow> double \<Rightarrow> double" where
  "add64 (Finite a) (Finite b) = to_double (a + b)"
| "add64 NaN y = NaN"
| "add64 x NaN = NaN"
| "add64 PosInf NegInf = NaN"
| "add64 NegInf PosInf = NaN"
| "add64 (Finite a) y = y"
| "add64 x y = x"

definition sub64 :: "double \<Rightarrow> double \<Rightarrow> double" where
  "sub64 x y = add64 x (neg64 y)"

fun mul64 :: "double \<Rightarrow> double \<Rightarrow> double" where
  "mul64 (Finite a) (Finite b) = to_double (a * b)"
| "mul64 NaN y = NaN"
| "mul64 x NaN = NaN"
| "mul64 x y =
     (if x = Finite 0 \<or> y = Finite 0 then NaN else infinity (is_negative x \<noteq> is_negative y))"

text \<open>\<open>x / y\<close> on floats raises \<open>ZeroDivisionError\<close> when \<open>y\<close> is zero, whatever \<open>x\<close> is.\<close>

fun div64 :: "double \<Rightarrow> double \<Rightarrow> py_error + double" where
  "div64 x (Finite b) =
     (if b = 0 then Inl ZeroDivisionError
      else case x of
             Finite a \<Rightarrow> Inr (to_double (a / b))
           | NaN \<Rightarrow> Inr NaN
           | _ \<Rightarrow> Inr (infinity (is_negative x \<noteq> (b < 0))))"
| "div64 x NaN = Inr NaN"
| "div64 (Finite a) y = Inr (Finite 0)"
| "div64 x y = Inr NaN"

text \<open>
  \<open>sum(values)\<close>: the additions run from left to right, starting from 0 (CPython up to
  version 3.11; later versions compensate the rounding errors of the additions).
\<close>

definition sum64 :: "double list \<Rightarrow> double" where
  "sum64 xs = foldl add64 (Finite 0) xs"

text \<open>A decimal literal of the source is the binary64 value nearest to it.\<close>

definition lit :: "real \<Rightarrow> double" where
  "lit x = to_double x"

section \<open>The program on binary64 values\<close>

text \<open>
  The functions of the program once more, line by line as above, with the operations of
  binary64 in place of the exact ones.
\<close>

definition PROBS64_gene :: "(nat, double) dict" where
  "PROBS64_gene = [(2, lit 0.01), (1, lit 0.03), (0, lit 0.96)]"

definition PROBS64_trait :: "(nat, (bool, double) dict) dict" where
  "PROBS64_trait =
     [(2, [(True, lit 0.65), (False, lit 0.35)]),
      (1, [(True, lit 0.56), (False, lit 0.44)]),
      (0, [(True, lit 0.01), (False, lit 0.99)])]"

definition PROBS64_mutation :: double where
  "PROBS64_mutation = lit 0.01"

record distributions64 =
  gene_dist64 :: "(nat, double) dict"
  trait_dist64 :: "(bool, double) dict"

type_synonym probabilities64 = "(string, distributions64) dict"

definition inherit64 :: "nat \<Rightarrow> bool \<Rightarrow> double option" where
  "inherit64 parent_gene t =
     (if parent_gene = 0 then
        Some (if t then PROBS64_mutation else sub64 (Finite 1) PROBS64_mutation)
      else if parent_gene = 1 then Some (lit 0.5)
      else if parent_gene = 2 then
        Some (if t then sub64 (Finite 1) PROBS64_mutation else PROBS64_mutation)
      else None)"

fun py_mul64 :: "double option \<Rightarrow> double option \<Rightarrow> py_error + double" where
  "py_mul64 (Some a) (Some b) = Inr (mul64 a b)"
| "py_mul64 _ _ = Inl TypeError"

definition PROBS64_trait_at :: "nat \<Rightarrow> bool \<Rightarrow> py_error + double" where
  "PROBS64_trait_at g t = and_then (getitem PROBS64_trait g) (\<lambda>d. getitem d t)"

definition joint_probability_body64 ::
  "people \<Rightarrow> string set \<Rightarrow> string set \<Rightarrow> string set \<Rightarrow> string \<Rightarrow> double
     \<Rightarrow> py_error + double" where
  "joint_probability_body64 people one_gene two_genes have_trait p probability =
     and_then (getitem people p) (\<lambda>row.
       let mom = mother row;
           dad = father row;
           personTrait = (if p \<in> have_trait then True else False);
           personGene = getGene (Some p) one_gene two_genes
       in
         if dad = None \<and> mom = None then
           and_then (PROBS64_trait_at personGene personTrait) (\<lambda>pt.
           and_then (getitem PROBS64_gene personGene) (\<lambda>pg.
             Inr (mul64 probability (mul64 pt pg))))
         else
           let mom_genes = getGene mom one_gene two_genes;
               dad_genes = getGene dad one_gene two_genes
           in
             and_then
               (if personGene = 0 then
                  and_then (py_mul64 (inherit64 mom_genes False) (inherit64 dad_genes False))
                    (\<lambda>x. Inr (mul64 probability x))
                else if personGene = 1 then
                  and_then (py_mul64 (inherit64 mom_genes True) (inherit64 dad_genes False))
                    (\<lambda>x.
                  and_then (py_mul64 (inherit64 mom_genes False) (inherit64 dad_genes True))
                    (\<lambda>y. Inr (mul64 probability (add64 x y))))
                else if personGene = 2 then
                  and_then (py_mul64 (inherit64 mom_genes True) (inherit64 dad_genes True))
                    (\<lambda>x. Inr (mul64 probability x))
                else Inr probability)
               (\<lambda>probability'.
                  and_then (PROBS64_trait_at personGene personTrait) (\<lambda>pt.
                    Inr (mul64 probability' pt))))"

definition joint_probability64 ::
  "people \<Rightarrow> string set \<Rightarrow> string set \<Rightarrow> string set \<Rightarrow> py_error + double" where
  "joint_probability64 people one_gene two_genes have_trait =
     for_loop (map fst people)
       (joint_probability_body64 people one_gene two_genes have_trait) (Finite 1)"

definition iadd64 :: "('k, double) dict \<Rightarrow> 'k \<Rightarrow> double \<Rightarrow> py_error + ('k, double) dict" where
  "iadd64 d k p = and_then (getitem d k) (\<lambda>v. Inr (setitem d k (add64 v p)))"

definition update_person64 ::
  "string set \<Rightarrow> string set \<Rightarrow> string set \<Rightarrow> double \<Rightarrow> string \<Rightarrow> distributions64
     \<Rightarrow> py_error + distributions64" where
  "update_person64 one_gene two_genes have_trait p pers entry =
     (let personGene = getGene (Some pers) one_gene two_genes;
          personTrait = (if pers \<in> have_trait then True else False)
      in and_then (iadd64 (gene_dist64 entry) personGene p) (\<lambda>g.
         and_then (iadd64 (trait_dist64 entry) personTrait p) (\<lambda>t.
           Inr \<lparr>gene_dist64 = g, trait_dist64 = t\<rparr>)))"

definition update64 ::
  "probabilities64 \<Rightarrow> string set \<Rightarrow> string set \<Rightarrow> string set \<Rightarrow> double
     \<Rightarrow> py_error + probabilities64" where
  "update64 probs one_gene two_genes have_trait p =
     update_each (update_person64 one_gene two_genes have_trait p) probs"

definition divide_all64 :: "('k, double) dict \<Rightarrow> double \<Rightarrow> py_error + ('k, double) dict" where
  "divide_all64 d s = update_each (\<lambda>k v. div64 v s) d"

definition normalize_person64 :: "string \<Rightarrow> distributions64 \<Rightarrow> py_error + distributions64" where
  "normalize_person64 pers entry =
     (let sum_gene = sum64 (map snd (gene_dist64 entry));
          sum_trait = sum64 (map snd (trait_dist64 entry))
      in and_then (divide_all64 (trait_dist64 entry) sum_trait) (\<lambda>t.
         and_then (divide_all64 (gene_dist64 entry) sum_gene) (\<lambda>g.
           Inr \<lparr>gene_dist64 = g, trait_dist64 = t\<rparr>)))"

definition normalize64 :: "probabilities64 \<Rightarrow> py_error + probabilities64" where
  "normalize64 probs = update_each normalize_person64 probs"

definition initial_probabilities64 :: "people \<Rightarrow> probabilities64" where
  "initial_probabilities64 people =
     map (\<lambda>p. (p, \<lparr>gene_dist64 = [(2, Finite 0), (1, Finite 0), (0, Finite 0)],
                    trait_dist64 = [(True, Finite 0), (False, Finite 0)]\<rparr>))
       (map fst people)"

definition accumulate64 ::
  "people \<Rightarrow> string list \<Rightarrow> string list \<Rightarrow> string list \<Rightarrow> probabilities64
     \<Rightarrow> py_error + probabilities64" where
  "accumulate64 people have_trait one_gene two_genes probs =
     and_then (joint_probability64 people (set one_gene) (set two_genes) (set have_trait)) (\<lambda>p.
       update64 probs (set one_gene) (set two_genes) (set have_trait) p)"

definition enumeration64 :: "people \<Rightarrow> probabilities64 \<Rightarrow> py_error + probabilities64" where
  "enumeration64 people probs0 =
     (let names = map fst people in
      for_loop (powerset names)
        (\<lambda>have_trait probs.
           and_then (fails_evidence people names (set have_trait)) (\<lambda>fails.
             if fails then Inr probs
             else
               for_loop (powerset names)
                 (\<lambda>one_gene probs'.
                    for_loop (powerset (set_minus names one_gene))
                      (\<lambda>two_genes. accumulate64 people have_trait one_gene two_genes)
                      probs')
                 probs))
        probs0)"

definition main64 :: "people \<Rightarrow> py_error + probabilities64" where
  "main64 people = and_then (enumeration64 people (initial_probabilities64 people)) normalize64"

section \<open>The hypotheses of the enumeration\<close>

text \<open>
  The triples \<open>(have_trait, one_gene, two_genes)\<close> for which the body of the innermost
  loop of \<open>main\<close> runs, in the order in which it runs: a subset \<open>have_trait\<close> for which
  \<open>fails_evidence\<close> is true is skipped by \<open>continue\<close>.
\<close>

definition hypotheses :: "people \<Rightarrow> (string list \<times> string list \<times> string list) list" where
  "hypotheses people =
     (let names = map fst people in
      concat (map
        (\<lambda>have_trait.
           if fails_evidence people names (set have_trait) = Inr False then
             concat (map
               (\<lambda>one_gene.
                  map (\<lambda>two_genes. (have_trait, one_gene, two_genes))
                    (powerset (set_minus names one_gene)))
               (powerset names))
           else [])
        (powerset names)))"

section \<open>The quantities of the specification\<close>

text \<open>
  The definitions of this section follow the words of the specification, not the code;
  the theorems below compare the code with them.

  The gene count of a person under a hypothesis: 1 if the person is in the one-copy set,
  2 if in the two-copy set, else 0.
\<close>

definition spec_gene_count :: "string \<Rightarrow> string set \<Rightarrow> string set \<Rightarrow> nat" where
  "spec_gene_count p one_gene two_genes =
     (if p \<in> one_gene then 1 else if p \<in> two_genes then 2 else 0)"

text \<open>The unconditional gene-count probability of a founder.\<close>

definition spec_prior :: "nat \<Rightarrow> real" where
  "spec_prior g = (if g = 0 then 0.96 else if g = 1 then 0.03 else 0.01)"

text \<open>The probability of the trait value \<open>t\<close> given the gene count \<open>g\<close>.\<close>

definition spec_trait_given :: "bool \<Rightarrow> nat \<Rightarrow> real" where
  "spec_trait_given t g =
     (if t then (if g = 0 then 0.01 else if g = 1 then 0.56 else 0.65)
      else (if g = 0 then 1 - 0.01 else if g = 1 then 1 - 0.56 else 1 - 0.65))"

text \<open>
  \<open>inherit_probability\<close>: the probability that a gamete of a parent with \<open>g\<close> copies
  carries the mutated allele, with the mutation probability 0.01.
\<close>

definition spec_inherit_probability :: "nat \<Rightarrow> real" where
  "spec_inherit_probability g = (if g = 0 then 0.01 else if g = 1 then 0.5 else 1 - 0.01)"

text \<open>The probability that a child has \<open>g\<close> copies, given the gene counts of its parents.\<close>

definition spec_transmission :: "nat \<Rightarrow> nat \<Rightarrow> nat \<Rightarrow> real" where
  "spec_transmission g g_mother g_father =
     (let m = spec_inherit_probability g_mother; f = spec_inherit_probability g_father
      in if g = 0 then (1 - m) * (1 - f)
         else if g = 1 then m * (1 - f) + (1 - m) * f
         else m * f)"

text \<open>
  The factor of one person. The specification gives a factor to a founder and to a person
  with both parents; a person with exactly one parent is outside its data model, and the
  value 0 written here for that case is used by no theorem.
\<close>

definition spec_factor ::
  "string set \<Rightarrow> string set \<Rightarrow> string set \<Rightarrow> string \<times> person \<Rightarrow> real" where
  "spec_factor one_gene two_genes have_trait entry =
     (let g = spec_gene_count (fst entry) one_gene two_genes;
          t = (fst entry \<in> have_trait)
      in case (mother (snd entry), father (snd entry)) of
           (None, None) \<Rightarrow> spec_prior g * spec_trait_given t g
         | (Some m, Some f) \<Rightarrow>
             spec_transmission g (spec_gene_count m one_gene two_genes)
               (spec_gene_count f one_gene two_genes) * spec_trait_given t g
         | _ \<Rightarrow> 0)"

text \<open>
  The trait probability of a single founder as the specification writes it, evaluated in
  binary64 from left to right.
\<close>

definition spec64_founder_trait :: double where
  "spec64_founder_trait =
     add64 (add64 (mul64 (lit 0.96) (lit 0.01)) (mul64 (lit 0.03) (lit 0.56)))
       (mul64 (lit 0.01) (lit 0.65))"

text \<open>
  Normalization as the specification words it: every bucket divided by the sum of the
  buckets of its distribution.
\<close>

definition spec_scaled :: "('k, real) dict \<Rightarrow> ('k, real) dict" where
  "spec_scaled d = map (\<lambda>(k, v). (k, v / sum_list (map snd d))) d"

definition spec_normalized :: "distributions \<Rightarrow> distributions" where
  "spec_normalized entry =
     \<lparr>gene_dist = spec_scaled (gene_dist entry), trait_dist = spec_scaled (trait_dist entry)\<rparr>"

text \<open>The invariant of a table of accumulators as a Python value: no key occurs twice.\<close>

definition wf_probabilities :: "probabilities \<Rightarrow> bool" where
  "wf_probabilities probs =
     (distinct (map fst probs) \<and>
      list_all (\<lambda>(p, entry). distinct (map fst (gene_dist entry)) \<and>
                              distinct (map fst (trait_dist entry))) probs)"

text \<open>
  The invariant of the table of \<open>main\<close> during the enumeration: the keys are the names
  of the pedigree, every person has the three gene-count buckets and the two trait buckets
  of the initial table, and the buckets of each distribution sum to the probability mass
  accumulated so far.
\<close>

definition accumulators :: "real \<Rightarrow> string list \<Rightarrow> probabilities \<Rightarrow> bool" where
  "accumulators mass names probs =
     (map fst probs = names \<and>
      list_all (\<lambda>(p, entry).
          map fst (gene_dist entry) = [2, 1, 0] \<and>
          map fst (trait_dist entry) = [True, False] \<and>
          sum_list (map snd (gene_dist entry)) = mass \<and>
          sum_list (map snd (trait_dist entry)) = mass) probs)"

section \<open>Facts about loops and dictionaries\<close>

lemma for_loop_append:
  "for_loop (xs @ ys) body s = and_then (for_loop xs body s) (for_loop ys body)"
proof (induction xs arbitrary: s)
  case Nil
  then show ?case by simp
next
  case (Cons x xs)
  then show ?case by (cases "body x s") simp_all
qed

lemma for_loop_map: "for_loop (map h xs) body s = for_loop xs (\<lambda>x. body (h x)) s"
proof (induction xs arbitrary: s)
  case Nil
  then show ?case by simp
next
  case (Cons x xs)
  then show ?case by (cases "body (h x) s") simp_all
qed

lemma for_loop_concat_map:
  "for_loop (concat (map g xs)) body s = for_loop xs (\<lambda>x. for_loop (g x) body) s"
proof (induction xs arbitrary: s)
  case Nil
  then show ?case by simp
next
  case (Cons x xs)
  then show ?case
    by (cases "for_loop (g x) body s") (simp_all add: for_loop_append)
qed

lemma for_loop_map_fun: "for_loop (map h xs) body = for_loop xs (\<lambda>x. body (h x))"
  by (rule ext) (rule for_loop_map)

lemma for_loop_cong:
  assumes "\<And>x s. x \<in> set xs \<Longrightarrow> f x s = g x s"
  shows "for_loop xs f s = for_loop xs g s"
  using assms
proof (induction xs arbitrary: s)
  case Nil
  then show ?case by simp
next
  case (Cons x xs)
  then show ?case by (cases "g x s") simp_all
qed

lemma getitem_append_fresh:
  "k \<notin> fst ` set pre \<Longrightarrow> getitem (pre @ (k, v) # post) k = Inr v"
  by (simp add: getitem_def map_of_eq_None_iff [THEN iffD2] map_add_def split: option.splits)

lemma setitem_append_fresh:
  "k \<notin> fst ` set pre \<Longrightarrow> setitem (pre @ (k, v) # post) k w = pre @ (k, w) # post"
  by (induction pre) (auto simp add: setitem_def)

lemma update_each_loop_Inr:
  assumes "distinct (map fst (pre @ todo))"
    and "\<forall>(k, v) \<in> set todo. f k v = Inr (g k v)"
  shows "for_loop (map fst todo)
           (\<lambda>k d'. and_then (getitem d' k) (\<lambda>v. and_then (f k v) (\<lambda>v'. Inr (setitem d' k v'))))
           (pre @ todo) =
         Inr (pre @ map (\<lambda>(k, v). (k, g k v)) todo)"
  using assms
proof (induction todo arbitrary: pre)
  case Nil
  then show ?case by simp
next
  case (Cons entry todo)
  obtain k v where entry: "entry = (k, v)"
    by (cases entry)
  have fresh: "k \<notin> fst ` set pre"
    using Cons.prems(1) by (auto simp add: entry)
  have step: "f k v = Inr (g k v)"
    using Cons.prems(2) by (simp add: entry)
  have "distinct (map fst ((pre @ [(k, g k v)]) @ todo))"
    using Cons.prems(1) by (auto simp add: entry)
  moreover have "\<forall>(k, v) \<in> set todo. f k v = Inr (g k v)"
    using Cons.prems(2) by simp
  ultimately have "for_loop (map fst todo)
      (\<lambda>k d'. and_then (getitem d' k) (\<lambda>v. and_then (f k v) (\<lambda>v'. Inr (setitem d' k v'))))
      ((pre @ [(k, g k v)]) @ todo) =
    Inr ((pre @ [(k, g k v)]) @ map (\<lambda>(k, v). (k, g k v)) todo)"
    by (rule Cons.IH)
  then show ?case
    by (simp add: entry getitem_append_fresh [OF fresh] setitem_append_fresh [OF fresh] step)
qed

lemma update_each_Inr:
  assumes "distinct (map fst d)" and "\<forall>(k, v) \<in> set d. f k v = Inr (g k v)"
  shows "update_each f d = Inr (map (\<lambda>(k, v). (k, g k v)) d)"
  using update_each_loop_Inr [of "[]" d f g] assms by (simp add: update_each_def)

lemma update_each_loop_Inl:
  assumes "distinct (map fst (pre @ todo))"
    and "\<forall>(k, v) \<in> set todo. f k v = Inl e \<or> (\<exists>w. f k v = Inr w)"
    and "\<exists>(k, v) \<in> set todo. f k v = Inl e"
  shows "for_loop (map fst todo)
           (\<lambda>k d'. and_then (getitem d' k) (\<lambda>v. and_then (f k v) (\<lambda>v'. Inr (setitem d' k v'))))
           (pre @ todo) = Inl e"
  using assms
proof (induction todo arbitrary: pre)
  case Nil
  then show ?case by simp
next
  case (Cons entry todo)
  obtain k v where entry: "entry = (k, v)"
    by (cases entry)
  have fresh: "k \<notin> fst ` set pre"
    using Cons.prems(1) by (auto simp add: entry)
  show ?case
  proof (cases "f k v")
    case (Inl e')
    with Cons.prems(2) have "e' = e"
      by (auto simp add: entry)
    with Inl show ?thesis
      by (simp add: entry getitem_append_fresh [OF fresh])
  next
    case (Inr w)
    have "distinct (map fst ((pre @ [(k, w)]) @ todo))"
      using Cons.prems(1) by (auto simp add: entry)
    moreover have "\<forall>(k, v) \<in> set todo. f k v = Inl e \<or> (\<exists>w. f k v = Inr w)"
      using Cons.prems(2) by simp
    moreover have "\<exists>(k, v) \<in> set todo. f k v = Inl e"
      using Cons.prems(3) Inr by (auto simp add: entry)
    ultimately have "for_loop (map fst todo)
        (\<lambda>k d'. and_then (getitem d' k) (\<lambda>v. and_then (f k v) (\<lambda>v'. Inr (setitem d' k v'))))
        ((pre @ [(k, w)]) @ todo) = Inl e"
      by (rule Cons.IH)
    then show ?thesis
      by (simp add: entry getitem_append_fresh [OF fresh] setitem_append_fresh [OF fresh] Inr)
  qed
qed

lemma update_each_Inl:
  assumes "distinct (map fst d)"
    and "\<forall>(k, v) \<in> set d. f k v = Inl e \<or> (\<exists>w. f k v = Inr w)"
    and "\<exists>(k, v) \<in> set d. f k v = Inl e"
  shows "update_each f d = Inl e"
  using update_each_loop_Inl [of "[]" d f e] assms by (simp add: update_each_def)

lemmas loop_defs = enumeration_def initial_probabilities_def powerset_def fails_evidence_def
     accumulate_def set_minus_def joint_probability_def update_def update_each_def normalize_def

lemmas body_defs = joint_probability_body_def getitem_def setitem_def getGene_def
      PROBS_trait_at_def PROBS_gene_def PROBS_trait_def PROBS_mutation_def inherit_def
      update_person_def iadd_def normalize_person_def divide_all_def py_div_def

section \<open>The inheritance calculator\<close>

lemma getGene_range: "getGene x one_gene two_genes \<in> {0, 1, 2}"
  by (simp add: getGene_def)

lemma getGene_Some: "getGene (Some p) one_gene two_genes = spec_gene_count p one_gene two_genes"
  by (simp add: getGene_def spec_gene_count_def)

lemma getGene_None: "getGene None one_gene two_genes = 0"
  by (simp add: getGene_def)

lemma PROBS_trait_at_spec:
  "g \<in> {0, 1, 2} \<Longrightarrow> PROBS_trait_at g t = Inr (spec_trait_given t g)"
  by (auto simp add: PROBS_trait_at_def PROBS_trait_def getitem_def spec_trait_given_def)

lemma PROBS_gene_spec: "g \<in> {0, 1, 2} \<Longrightarrow> getitem PROBS_gene g = Inr (spec_prior g)"
  by (auto simp add: PROBS_gene_def getitem_def spec_prior_def)

lemma inherit_spec:
  "g \<in> {0, 1, 2} \<Longrightarrow>
     inherit g t = Some (if t then spec_inherit_probability g else 1 - spec_inherit_probability g)"
  by (auto simp add: inherit_def spec_inherit_probability_def PROBS_mutation_def)

lemma PROBS_trait_at_getGene:
  "PROBS_trait_at (getGene x one_gene two_genes) t =
     Inr (spec_trait_given t (getGene x one_gene two_genes))"
  by (rule PROBS_trait_at_spec) (rule getGene_range)

lemma PROBS_gene_getGene:
  "getitem PROBS_gene (getGene x one_gene two_genes) =
     Inr (spec_prior (getGene x one_gene two_genes))"
  by (rule PROBS_gene_spec) (rule getGene_range)

lemma inherit_getGene:
  "inherit (getGene x one_gene two_genes) t =
     Some (if t then spec_inherit_probability (getGene x one_gene two_genes)
           else 1 - spec_inherit_probability (getGene x one_gene two_genes))"
  by (rule inherit_spec) (rule getGene_range)

text \<open>
  Claim C3. Applied to the parent gene counts 0, 1 and 2, with the second argument true,
  \<open>inherit\<close> returns the mutation probability, which is 0.01, one half, and one minus
  the mutation probability. For the count 1 the result is one half for both values of the
  second argument, and the mutation probability does not occur in it.
\<close>

theorem inherit_values:
  "PROBS_mutation = 0.01 \<and>
   inherit 0 True = Some PROBS_mutation \<and>
   inherit 1 True = Some 0.5 \<and> inherit 1 False = Some 0.5 \<and>
   inherit 2 True = Some (1 - PROBS_mutation)"
  by (simp add: inherit_def PROBS_mutation_def)

section \<open>The joint probability of a hypothesis\<close>

text \<open>The factor that one run of the loop body multiplies into the running product.\<close>

lemma joint_probability_body_value:
  assumes "map_of people p = Some row"
  shows "joint_probability_body people one_gene two_genes have_trait p probability =
           Inr (probability *
             (if father row = None \<and> mother row = None then
                spec_prior (getGene (Some p) one_gene two_genes) *
                spec_trait_given (p \<in> have_trait) (getGene (Some p) one_gene two_genes)
              else
                spec_transmission (getGene (Some p) one_gene two_genes)
                  (getGene (mother row) one_gene two_genes)
                  (getGene (father row) one_gene two_genes) *
                spec_trait_given (p \<in> have_trait) (getGene (Some p) one_gene two_genes)))"
proof -
  let ?g = "getGene (Some p) one_gene two_genes"
  have look: "getitem people p = Inr row"
    using assms by (simp add: getitem_def)
  show ?thesis
  proof (cases "father row = None \<and> mother row = None")
    case True
    then show ?thesis
      by (simp add: joint_probability_body_def look Let_def PROBS_trait_at_getGene
          PROBS_gene_getGene mult.commute)
  next
    case False
    have "?g \<in> {0, 1, 2}"
      by (rule getGene_range)
    then have "?g = 0 \<or> ?g = 1 \<or> ?g = 2"
      by simp
    then show ?thesis
      by (elim disjE)
        (simp_all add: joint_probability_body_def look Let_def False PROBS_trait_at_getGene
          PROBS_trait_at_spec inherit_getGene spec_transmission_def mult.assoc)
  qed
qed

lemma joint_probability_loop:
  assumes "distinct (map fst people)" and "set rest \<subseteq> set people"
    and "\<forall>(p, row) \<in> set people. (mother row = None) = (father row = None)"
  shows "for_loop (map fst rest)
           (joint_probability_body people one_gene two_genes have_trait) probability =
         Inr (probability * prod_list (map (spec_factor one_gene two_genes have_trait) rest))"
  using assms(2)
proof (induction rest arbitrary: probability)
  case Nil
  then show ?case by simp
next
  case (Cons entry rest)
  obtain p row where entry: "entry = (p, row)"
    by (cases entry)
  with Cons.prems have mem: "(p, row) \<in> set people"
    by simp
  then have look: "map_of people p = Some row"
    using assms(1) by simp
  have both: "(mother row = None) = (father row = None)"
    using assms(3) mem by auto
  have factor:
    "(if father row = None \<and> mother row = None then
        spec_prior (getGene (Some p) one_gene two_genes) *
        spec_trait_given (p \<in> have_trait) (getGene (Some p) one_gene two_genes)
      else
        spec_transmission (getGene (Some p) one_gene two_genes)
          (getGene (mother row) one_gene two_genes)
          (getGene (father row) one_gene two_genes) *
        spec_trait_given (p \<in> have_trait) (getGene (Some p) one_gene two_genes)) =
     spec_factor one_gene two_genes have_trait (p, row)"
    using both
    by (cases "mother row"; cases "father row")
      (simp_all add: spec_factor_def Let_def getGene_Some)
  have "set rest \<subseteq> set people"
    using Cons.prems by simp
  from Cons.IH [OF this] show ?case
    by (simp add: entry joint_probability_body_value [OF look] factor mult.assoc)
qed

text \<open>
  Claim C1. For a pedigree in which every person has both parent references or neither,
  and for disjoint sets \<open>one_gene\<close> and \<open>two_genes\<close> and any set \<open>have_trait\<close>,
  \<open>joint_probability\<close> returns the product of the factors of the specification, one
  factor for every entry of the pedigree: the prior times the trait probability for a
  founder, the transmission probability times the trait probability for a person with
  both parents. The keys of the pedigree are distinct, as in every Python dictionary, so
  the product over the set of entries has every person exactly once.
\<close>

theorem joint_probability_product:
  assumes "distinct (map fst people)"
    and "\<forall>(p, row) \<in> set people. (mother row = None) = (father row = None)"
    and "one_gene \<inter> two_genes = {}"
  shows "joint_probability people one_gene two_genes have_trait =
           Inr (\<Prod>entry \<in> set people. spec_factor one_gene two_genes have_trait entry)"
proof -
  have "distinct people"
    using assms(1) by (simp add: distinct_map)
  then have "prod_list (map (spec_factor one_gene two_genes have_trait) people) =
      (\<Prod>entry \<in> set people. spec_factor one_gene two_genes have_trait entry)"
    by (rule prod.distinct_set_conv_list [symmetric])
  then show ?thesis
    using joint_probability_loop [OF assms(1) subset_refl assms(2), of one_gene two_genes have_trait 1]
    by (simp add: joint_probability_def)
qed

theorem joint_probability_product_witness:
  "distinct (map fst
     [(''a'', \<lparr>name = ''a'', mother = None, father = None, trait = None\<rparr>),
      (''b'', \<lparr>name = ''b'', mother = None, father = None, trait = Some False\<rparr>),
      (''c'', \<lparr>name = ''c'', mother = Some ''a'', father = Some ''b'', trait = Some True\<rparr>)]) \<and>
   list_all (\<lambda>(p, row). (mother row = None) = (father row = None))
     [(''a'', \<lparr>name = ''a'', mother = None, father = None, trait = None\<rparr>),
      (''b'', \<lparr>name = ''b'', mother = None, father = None, trait = Some False\<rparr>),
      (''c'', \<lparr>name = ''c'', mother = Some ''a'', father = Some ''b'', trait = Some True\<rparr>)] \<and>
   {''a''} \<inter> {''c''} = ({} :: string set) \<and>
   joint_probability
     [(''a'', \<lparr>name = ''a'', mother = None, father = None, trait = None\<rparr>),
      (''b'', \<lparr>name = ''b'', mother = None, father = None, trait = Some False\<rparr>),
      (''c'', \<lparr>name = ''c'', mother = Some ''a'', father = Some ''b'', trait = Some True\<rparr>)]
     {''a''} {''c''} {''c''} =
   Inr ((0.03 * 0.44) * (0.96 * 0.99) * ((0.5 * 0.01) * 0.65))"
  using joint_probability_product [of
     "[(''a'', \<lparr>name = ''a'', mother = None, father = None, trait = None\<rparr>),
      (''b'', \<lparr>name = ''b'', mother = None, father = None, trait = Some False\<rparr>),
      (''c'', \<lparr>name = ''c'', mother = Some ''a'', father = Some ''b'', trait = Some True\<rparr>)]"
     "{''a''}" "{''c''}" "{''c''}"]
  by (simp add: spec_factor_def spec_gene_count_def spec_prior_def spec_trait_given_def
      spec_transmission_def spec_inherit_probability_def)

lemma joint_probability_loop_total:
  assumes "set ks \<subseteq> fst ` set people"
  shows "\<exists>q. for_loop ks (joint_probability_body people one_gene two_genes have_trait)
           probability = Inr q"
  using assms
proof (induction ks arbitrary: probability)
  case Nil
  then show ?case by simp
next
  case (Cons p ks)
  then have "p \<in> fst ` set people"
    by simp
  then obtain row where row: "map_of people p = Some row"
    by (metis domD dom_map_of_conv_image_fst)
  have "set ks \<subseteq> fst ` set people"
    using Cons.prems by simp
  from Cons.IH [OF this] show ?case
    by (simp add: joint_probability_body_value [OF row])
qed

text \<open>
  Claim C10. \<open>joint_probability\<close> raises no exception, whatever the pedigree. For a person
  with exactly one parent reference the body of its loop takes the branch of a person with
  parents: the factor is the transmission probability, in which the absent parent counts
  as a parent without a copy, times the trait probability.
\<close>

theorem one_parent_not_rejected:
  "(\<exists>q. joint_probability people one_gene two_genes have_trait = Inr q) \<and>
   (\<forall>p row. map_of people p = Some row \<and> (mother row = None) \<noteq> (father row = None) \<longrightarrow>
      joint_probability_body people one_gene two_genes have_trait p probability =
        Inr (probability *
          (spec_transmission (getGene (Some p) one_gene two_genes)
             (case mother row of None \<Rightarrow> 0 | Some m \<Rightarrow> getGene (Some m) one_gene two_genes)
             (case father row of None \<Rightarrow> 0 | Some f \<Rightarrow> getGene (Some f) one_gene two_genes) *
           spec_trait_given (p \<in> have_trait) (getGene (Some p) one_gene two_genes))))"
proof (intro conjI allI impI)
  show "\<exists>q. joint_probability people one_gene two_genes have_trait = Inr q"
    unfolding joint_probability_def by (rule joint_probability_loop_total) simp
next
  fix p row
  assume "map_of people p = Some row \<and> (mother row = None) \<noteq> (father row = None)"
  then have row: "map_of people p = Some row"
    and half: "(mother row = None) \<noteq> (father row = None)"
    by simp_all
  have "getGene (mother row) one_gene two_genes =
      (case mother row of None \<Rightarrow> 0 | Some m \<Rightarrow> getGene (Some m) one_gene two_genes)"
    by (cases "mother row") (simp_all add: getGene_None)
  moreover have "getGene (father row) one_gene two_genes =
      (case father row of None \<Rightarrow> 0 | Some f \<Rightarrow> getGene (Some f) one_gene two_genes)"
    by (cases "father row") (simp_all add: getGene_None)
  moreover have "\<not> (father row = None \<and> mother row = None)"
    using half by auto
  ultimately show "joint_probability_body people one_gene two_genes have_trait p probability =
        Inr (probability *
          (spec_transmission (getGene (Some p) one_gene two_genes)
             (case mother row of None \<Rightarrow> 0 | Some m \<Rightarrow> getGene (Some m) one_gene two_genes)
             (case father row of None \<Rightarrow> 0 | Some f \<Rightarrow> getGene (Some f) one_gene two_genes) *
           spec_trait_given (p \<in> have_trait) (getGene (Some p) one_gene two_genes)))"
    by (simp only: joint_probability_body_value [OF row] if_False)
qed

theorem one_parent_not_rejected_witness:
  "map_of
     [(''a'', \<lparr>name = ''a'', mother = None, father = None, trait = None\<rparr>),
      (''c'', \<lparr>name = ''c'', mother = Some ''a'', father = None, trait = None\<rparr>)] ''c'' =
     Some \<lparr>name = ''c'', mother = Some ''a'', father = None, trait = None\<rparr> \<and>
   joint_probability_body
     [(''a'', \<lparr>name = ''a'', mother = None, father = None, trait = None\<rparr>),
      (''c'', \<lparr>name = ''c'', mother = Some ''a'', father = None, trait = None\<rparr>)]
     {''a''} {} {} ''c'' 1 =
   Inr (1 * (((1 - 0.5) * (1 - 0.01)) * (1 - 0.01))) \<and>
   joint_probability
     [(''a'', \<lparr>name = ''a'', mother = None, father = None, trait = None\<rparr>),
      (''c'', \<lparr>name = ''c'', mother = Some ''a'', father = None, trait = None\<rparr>)]
     {''a''} {} {} =
   Inr (0.03 * 0.44 * (((1 - 0.5) * (1 - 0.01)) * (1 - 0.01)))"
proof -
  let ?P = "[(''a'', \<lparr>name = ''a'', mother = None, father = None, trait = None\<rparr>),
      (''c'', \<lparr>name = ''c'', mother = Some ''a'', father = None, trait = None\<rparr>)]"
  let ?row = "\<lparr>name = ''c'', mother = Some ''a'', father = None, trait = None\<rparr>"
  have row: "map_of ?P ''c'' = Some ?row \<and> (mother ?row = None) \<noteq> (father ?row = None)"
    by simp
  have "\<forall>p row. map_of ?P p = Some row \<and> (mother row = None) \<noteq> (father row = None) \<longrightarrow>
      joint_probability_body ?P {''a''} {} {} p 1 =
        Inr (1 *
          (spec_transmission (getGene (Some p) {''a''} {})
             (case mother row of None \<Rightarrow> 0 | Some m \<Rightarrow> getGene (Some m) {''a''} {})
             (case father row of None \<Rightarrow> 0 | Some f \<Rightarrow> getGene (Some f) {''a''} {}) *
           spec_trait_given (p \<in> {}) (getGene (Some p) {''a''} {})))"
    using one_parent_not_rejected [of ?P "{''a''}" "{}" "{}" 1] by (rule conjunct2)
  with row have "joint_probability_body ?P {''a''} {} {} ''c'' 1 =
        Inr (1 *
          (spec_transmission (getGene (Some ''c'') {''a''} {})
             (case mother ?row of None \<Rightarrow> 0 | Some m \<Rightarrow> getGene (Some m) {''a''} {})
             (case father ?row of None \<Rightarrow> 0 | Some f \<Rightarrow> getGene (Some f) {''a''} {}) *
           spec_trait_given (''c'' \<in> {}) (getGene (Some ''c'') {''a''} {})))"
    by blast
  then have body: "joint_probability_body ?P {''a''} {} {} ''c'' 1 =
      Inr (1 * (((1 - 0.5) * (1 - 0.01)) * (1 - 0.01)))"
    by (simp add: getGene_def spec_transmission_def spec_inherit_probability_def
        spec_trait_given_def)
  have "joint_probability ?P {''a''} {} {} =
      Inr (0.03 * 0.44 * (((1 - 0.5) * (1 - 0.01)) * (1 - 0.01)))"
    by (simp add: joint_probability_def body_defs)
  with body show ?thesis
    by simp
qed

section \<open>Normalization\<close>

lemma divide_all_nonzero:
  assumes "distinct (map fst d)" and "s \<noteq> 0"
  shows "divide_all d s = Inr (map (\<lambda>(k, v). (k, v / s)) d)"
  unfolding divide_all_def
  by (rule update_each_Inr [OF assms(1)]) (simp add: py_div_def assms(2))

lemma divide_all_zero:
  assumes "distinct (map fst d)" and "d \<noteq> []"
  shows "divide_all d 0 = Inl ZeroDivisionError"
  unfolding divide_all_def
proof (rule update_each_Inl [OF assms(1)])
  show "\<forall>(k, v) \<in> set d. py_div v 0 = Inl ZeroDivisionError \<or> (\<exists>w. py_div v 0 = Inr w)"
    by (simp add: py_div_def)
  obtain k v where "(k, v) \<in> set d"
    using assms(2) by (cases d) auto
  then show "\<exists>(k, v) \<in> set d. py_div v 0 = Inl ZeroDivisionError"
    by (auto simp add: py_div_def)
qed

lemma divide_all_cases:
  assumes "distinct (map fst d)"
  shows "divide_all d s = Inl ZeroDivisionError \<or> (\<exists>d'. divide_all d s = Inr d')"
proof (cases "s = 0 \<and> d \<noteq> []")
  case True
  then show ?thesis using divide_all_zero [OF assms] by simp
next
  case False
  show ?thesis
  proof (cases "s = 0")
    case True
    with False have "d = []" by simp
    then show ?thesis by (simp add: divide_all_def update_each_def)
  next
    case False
    then show ?thesis using divide_all_nonzero [OF assms] by simp
  qed
qed

lemma normalize_person_nonzero:
  assumes "distinct (map fst (gene_dist entry))" and "distinct (map fst (trait_dist entry))"
    and "sum_list (map snd (gene_dist entry)) \<noteq> 0"
    and "sum_list (map snd (trait_dist entry)) \<noteq> 0"
  shows "normalize_person p entry = Inr (spec_normalized entry)"
  by (simp add: normalize_person_def Let_def divide_all_nonzero assms spec_normalized_def
      spec_scaled_def)

lemma normalize_person_zero:
  assumes "distinct (map fst (gene_dist entry))" and "distinct (map fst (trait_dist entry))"
    and "(gene_dist entry \<noteq> [] \<and> sum_list (map snd (gene_dist entry)) = 0) \<or>
         (trait_dist entry \<noteq> [] \<and> sum_list (map snd (trait_dist entry)) = 0)"
  shows "normalize_person p entry = Inl ZeroDivisionError"
proof (cases "trait_dist entry \<noteq> [] \<and> sum_list (map snd (trait_dist entry)) = 0")
  case True
  then show ?thesis
    using divide_all_zero [OF assms(2)] by (simp add: normalize_person_def Let_def)
next
  case False
  with assms(3) have gene: "gene_dist entry \<noteq> []" "sum_list (map snd (gene_dist entry)) = 0"
    by auto
  from divide_all_cases [OF assms(2)] show ?thesis
  proof
    assume "divide_all (trait_dist entry) (sum_list (map snd (trait_dist entry))) =
      Inl ZeroDivisionError"
    then show ?thesis by (simp add: normalize_person_def Let_def)
  next
    assume "\<exists>d'. divide_all (trait_dist entry) (sum_list (map snd (trait_dist entry))) = Inr d'"
    then show ?thesis
      using divide_all_zero [OF assms(1) gene(1)] gene(2)
      by (auto simp add: normalize_person_def Let_def)
  qed
qed

lemma normalize_person_cases:
  assumes "distinct (map fst (gene_dist entry))" and "distinct (map fst (trait_dist entry))"
  shows "normalize_person p entry = Inl ZeroDivisionError \<or>
    (\<exists>w. normalize_person p entry = Inr w)"
  using divide_all_cases [OF assms(1), of "sum_list (map snd (gene_dist entry))"]
    divide_all_cases [OF assms(2), of "sum_list (map snd (trait_dist entry))"]
  by (auto simp add: normalize_person_def Let_def)

lemma sum_list_scaled:
  "sum_list (map snd (map (\<lambda>(k, v). (k, v / s)) d)) = sum_list (map snd d) / (s::real)"
  by (induction d) (auto simp add: add_divide_distrib)

lemma spec_scaled_sum:
  assumes "sum_list (map snd d) \<noteq> 0"
  shows "sum_list (map snd (spec_scaled d)) = 1"
  unfolding spec_scaled_def sum_list_scaled using assms by simp

section \<open>The enumeration\<close>

lemma combinations_subset: "ys \<in> set (combinations xs r) \<Longrightarrow> set ys \<subseteq> set xs"
  by (induction xs r arbitrary: ys rule: combinations.induct) fastforce+

lemma powerset_subset: "ys \<in> set (powerset xs) \<Longrightarrow> set ys \<subseteq> set xs"
  by (auto simp add: powerset_def dest: combinations_subset)

subsection \<open>fails_evidence\<close>

lemma fails_evidence_loop:
  assumes "set names \<subseteq> fst ` set people"
  shows "for_loop names
       (\<lambda>p found.
          if found then Inr True
          else and_then (getitem people p) (\<lambda>row.
                 Inr (trait row \<noteq> None \<and> trait row \<noteq> Some (p \<in> have_trait))))
       found =
     Inr (found \<or> (\<exists>p \<in> set names. \<exists>row. map_of people p = Some row \<and> trait row \<noteq> None \<and>
            trait row \<noteq> Some (p \<in> have_trait)))"
  using assms
proof (induction names arbitrary: found)
  case Nil
  then show ?case by simp
next
  case (Cons p names)
  then have "p \<in> fst ` set people"
    by simp
  then obtain row where row: "map_of people p = Some row"
    by (metis domD dom_map_of_conv_image_fst)
  have "set names \<subseteq> fst ` set people"
    using Cons.prems by simp
  note IH = Cons.IH [OF this]
  show ?case
    by (cases found) (auto simp add: IH getitem_def row)
qed

lemma fails_evidence_value:
  "fails_evidence people (map fst people) have_trait =
     Inr (\<exists>p \<in> fst ` set people. \<exists>row. map_of people p = Some row \<and> trait row \<noteq> None \<and>
            trait row \<noteq> Some (p \<in> have_trait))"
  unfolding fails_evidence_def
  by (subst fails_evidence_loop) simp_all

subsection \<open>The enumeration runs the body once for every hypothesis\<close>

lemma enumeration_hypotheses:
  "enumeration people probs =
     for_loop (hypotheses people)
       (\<lambda>(have_trait, one_gene, two_genes). accumulate people have_trait one_gene two_genes)
       probs"
proof -
  let ?names = "map fst people"
  let ?step = "\<lambda>(have_trait, one_gene, two_genes). accumulate people have_trait one_gene two_genes"
  let ?triples = "\<lambda>have_trait.
        concat (map
               (\<lambda>one_gene.
                  map (\<lambda>two_genes. (have_trait, one_gene, two_genes))
                    (powerset (set_minus ?names one_gene)))
               (powerset ?names))"
  have inner: "for_loop (?triples have_trait) ?step s =
      for_loop (powerset ?names)
        (\<lambda>one_gene probs'.
           for_loop (powerset (set_minus ?names one_gene))
             (\<lambda>two_genes. accumulate people have_trait one_gene two_genes) probs') s"
    for have_trait s
    by (simp add: for_loop_concat_map for_loop_map_fun)
  have outer: "and_then (fails_evidence people ?names (set have_trait)) (\<lambda>fails.
             if fails then Inr s
             else
               for_loop (powerset ?names)
                 (\<lambda>one_gene probs'.
                    for_loop (powerset (set_minus ?names one_gene))
                      (\<lambda>two_genes. accumulate people have_trait one_gene two_genes)
                      probs')
                 s) =
      for_loop (if fails_evidence people ?names (set have_trait) = Inr False
                then ?triples have_trait else []) ?step s"
    for have_trait s
  proof -
    obtain fails where fails: "fails_evidence people ?names (set have_trait) = Inr fails"
      using fails_evidence_value by blast
    show ?thesis
      unfolding fails by (cases fails) (simp_all add: inner)
  qed
  show ?thesis
    unfolding enumeration_def hypotheses_def Let_def
    by (simp only: for_loop_concat_map outer)
qed

lemma hypotheses_member:
  assumes "(have_trait, one_gene, two_genes) \<in> set (hypotheses people)"
  shows "fails_evidence people (map fst people) (set have_trait) = Inr False"
    and "have_trait \<in> set (powerset (map fst people))"
    and "one_gene \<in> set (powerset (map fst people))"
    and "two_genes \<in> set (powerset (set_minus (map fst people) one_gene))"
  using assms by (auto simp add: hypotheses_def Let_def split: if_splits)

text \<open>
  Claim C4. The loops of \<open>main\<close> compute and accumulate a joint probability for the
  hypotheses of the list above and for nothing else, and in every one of them a person
  whose trait was observed is in \<open>have_trait\<close> exactly when the observation is true.
\<close>

theorem evidence_respected:
  "enumeration people probs =
     for_loop (hypotheses people)
       (\<lambda>(have_trait, one_gene, two_genes). accumulate people have_trait one_gene two_genes)
       probs \<and>
   (\<forall>(have_trait, one_gene, two_genes) \<in> set (hypotheses people).
      \<forall>p row observed. map_of people p = Some row \<and> trait row = Some observed \<longrightarrow>
        (p \<in> set have_trait) = observed)"
proof (intro conjI)
  show "enumeration people probs =
     for_loop (hypotheses people)
       (\<lambda>(have_trait, one_gene, two_genes). accumulate people have_trait one_gene two_genes)
       probs"
    by (rule enumeration_hypotheses)
next
  show "\<forall>(have_trait, one_gene, two_genes) \<in> set (hypotheses people).
      \<forall>p row observed. map_of people p = Some row \<and> trait row = Some observed \<longrightarrow>
        (p \<in> set have_trait) = observed"
  proof (clarify)
    fix have_trait one_gene two_genes p row observed
    assume hyp: "(have_trait, one_gene, two_genes) \<in> set (hypotheses people)"
      and row: "map_of people p = Some row" and obs: "trait row = Some observed"
    from row have "p \<in> fst ` set people"
      by (metis domI dom_map_of_conv_image_fst)
    moreover from hypotheses_member(1) [OF hyp]
    have "\<not> (\<exists>p \<in> fst ` set people. \<exists>row. map_of people p = Some row \<and> trait row \<noteq> None \<and>
            trait row \<noteq> Some (p \<in> set have_trait))"
      by (simp add: fails_evidence_value)
    ultimately have "trait row = None \<or> trait row = Some (p \<in> set have_trait)"
      using row by blast
    with obs show "(p \<in> set have_trait) = observed"
      by simp
  qed
qed

theorem evidence_respected_witness:
  "([''a''], [], [''a'']) \<in> set (hypotheses
      [(''a'', \<lparr>name = ''a'', mother = None, father = None, trait = Some True\<rparr>)]) \<and>
   map_of [(''a'', \<lparr>name = ''a'', mother = None, father = None, trait = Some True\<rparr>)] ''a'' =
     Some \<lparr>name = ''a'', mother = None, father = None, trait = Some True\<rparr> \<and>
   trait \<lparr>name = ''a'', mother = None, father = None, trait = Some True\<rparr> = Some True \<and>
   (''a'' \<in> set [''a'']) = True"
proof -
  let ?P = "[(''a'', \<lparr>name = ''a'', mother = None, father = None, trait = Some True\<rparr>)]"
  have mem: "([''a''], [], [''a'']) \<in> set (hypotheses ?P)"
    by code_simp
  have "\<forall>(have_trait, one_gene, two_genes) \<in> set (hypotheses ?P).
      \<forall>p row observed. map_of ?P p = Some row \<and> trait row = Some observed \<longrightarrow>
        (p \<in> set have_trait) = observed"
    using evidence_respected [of ?P] by (rule conjunct2)
  with mem have "(''a'' \<in> set [''a'']) = True"
    by fastforce
  with mem show ?thesis
    by simp
qed

text \<open>
  Claim C5. In every hypothesis for which the loops of \<open>main\<close> call \<open>joint_probability\<close>
  and \<open>update\<close>, \<open>two_genes\<close> is an element of the power set of the names without
  \<open>one_gene\<close>, and no person is in both sets.
\<close>

theorem gene_sets_disjoint:
  "enumeration people probs =
     for_loop (hypotheses people)
       (\<lambda>(have_trait, one_gene, two_genes). accumulate people have_trait one_gene two_genes)
       probs \<and>
   (\<forall>(have_trait, one_gene, two_genes) \<in> set (hypotheses people).
      two_genes \<in> set (powerset (set_minus (map fst people) one_gene)) \<and>
      set one_gene \<inter> set two_genes = {})"
proof (intro conjI)
  show "enumeration people probs =
     for_loop (hypotheses people)
       (\<lambda>(have_trait, one_gene, two_genes). accumulate people have_trait one_gene two_genes)
       probs"
    by (rule enumeration_hypotheses)
next
  show "\<forall>(have_trait, one_gene, two_genes) \<in> set (hypotheses people).
      two_genes \<in> set (powerset (set_minus (map fst people) one_gene)) \<and>
      set one_gene \<inter> set two_genes = {}"
  proof (clarify)
    fix have_trait one_gene two_genes
    assume hyp: "(have_trait, one_gene, two_genes) \<in> set (hypotheses people)"
    have mem: "two_genes \<in> set (powerset (set_minus (map fst people) one_gene))"
      by (rule hypotheses_member(4) [OF hyp])
    then have "set two_genes \<subseteq> set (set_minus (map fst people) one_gene)"
      by (rule powerset_subset)
    then have "set one_gene \<inter> set two_genes = {}"
      by (auto simp add: set_minus_def)
    with mem show "two_genes \<in> set (powerset (set_minus (map fst people) one_gene)) \<and>
      set one_gene \<inter> set two_genes = {}"
      by simp
  qed
qed

theorem gene_sets_disjoint_witness:
  "([], [''a''], []) \<in> set (hypotheses
      [(''a'', \<lparr>name = ''a'', mother = None, father = None, trait = Some False\<rparr>)]) \<and>
   [] \<in> set (powerset (set_minus [''a''] [''a''])) \<and>
   set [''a''] \<inter> set ([] :: string list) = {}"
proof -
  let ?P = "[(''a'', \<lparr>name = ''a'', mother = None, father = None, trait = Some False\<rparr>)]"
  have mem: "([], [''a''], []) \<in> set (hypotheses ?P)"
    by code_simp
  have "\<forall>(have_trait, one_gene, two_genes) \<in> set (hypotheses ?P).
      two_genes \<in> set (powerset (set_minus (map fst ?P) one_gene)) \<and>
      set one_gene \<inter> set two_genes = {}"
    using gene_sets_disjoint [of ?P] by (rule conjunct2)
  with mem have "[] \<in> set (powerset (set_minus (map fst ?P) [''a''])) \<and>
      set [''a''] \<inter> set ([] :: string list) = {}"
    by fastforce
  with mem show ?thesis
    by simp
qed

section \<open>The accumulation\<close>

subsection \<open>update adds the joint probability to one bucket of each distribution\<close>

lemma iadd_value: "map_of d k = Some v \<Longrightarrow> iadd d k q = Inr (AList.update k (v + q) d)"
  by (simp add: iadd_def getitem_def setitem_def)

lemma update_sum:
  "map_of d k = Some v \<Longrightarrow>
     sum_list (map snd (AList.update k w d)) = sum_list (map snd d) - v + (w::real)"
  by (induction d) (auto split: if_splits)

lemma update_keys_present:
  "map_of d k = Some v \<Longrightarrow> map fst (AList.update k w d) = map fst d"
  by (induction d) (auto split: if_splits)

lemma iadd_present:
  assumes "k \<in> set (map fst d)"
  shows "\<exists>d'. iadd d k q = Inr d' \<and> map fst d' = map fst d \<and>
           sum_list (map snd d') = sum_list (map snd d) + q"
proof -
  from assms obtain v where v: "map_of d k = Some v"
    by (metis domD dom_map_of_conv_image_fst set_map)
  show ?thesis
    by (simp add: iadd_value [OF v] update_sum [OF v] update_keys_present [OF v])
qed

lemma update_person_accumulates:
  assumes "map fst (gene_dist entry) = [2, 1, 0]"
    and "map fst (trait_dist entry) = [True, False]"
  shows "\<exists>entry'. update_person one_gene two_genes have_trait q p entry = Inr entry' \<and>
           map fst (gene_dist entry') = [2, 1, 0] \<and>
           map fst (trait_dist entry') = [True, False] \<and>
           sum_list (map snd (gene_dist entry')) = sum_list (map snd (gene_dist entry)) + q \<and>
           sum_list (map snd (trait_dist entry')) = sum_list (map snd (trait_dist entry)) + q"
proof -
  let ?g = "getGene (Some p) one_gene two_genes"
  have "?g \<in> set (map fst (gene_dist entry))"
    unfolding assms(1) by (simp add: getGene_def)
  from iadd_present [OF this, of q] obtain g where g: "iadd (gene_dist entry) ?g q = Inr g"
      "map fst g = [2, 1, 0]"
      "sum_list (map snd g) = sum_list (map snd (gene_dist entry)) + q"
    using assms(1) by auto
  have "(p \<in> have_trait) \<in> set (map fst (trait_dist entry))"
    unfolding assms(2) by auto
  from iadd_present [OF this, of q] obtain t where
      t: "iadd (trait_dist entry) (p \<in> have_trait) q = Inr t"
      "map fst t = [True, False]"
      "sum_list (map snd t) = sum_list (map snd (trait_dist entry)) + q"
    using assms(2) by auto
  show ?thesis
    using g t by (cases "p \<in> have_trait") (simp_all add: update_person_def Let_def)
qed

lemma update_accumulates:
  assumes "accumulators mass names probs" and "distinct names"
  shows "\<exists>probs'. update probs one_gene two_genes have_trait q = Inr probs' \<and>
           accumulators (mass + q) names probs'"
proof -
  let ?f = "update_person one_gene two_genes have_trait q"
  have keys: "map fst probs = names"
    using assms(1) by (simp add: accumulators_def)
  have entry: "\<exists>entry'. ?f p entry = Inr entry' \<and>
           map fst (gene_dist entry') = [2, 1, 0] \<and>
           map fst (trait_dist entry') = [True, False] \<and>
           sum_list (map snd (gene_dist entry')) = mass + q \<and>
           sum_list (map snd (trait_dist entry')) = mass + q"
    if "(p, entry) \<in> set probs" for p entry
  proof -
    from that assms(1) have "map fst (gene_dist entry) = [2, 1, 0]"
      and "map fst (trait_dist entry) = [True, False]"
      and "sum_list (map snd (gene_dist entry)) = mass"
      and "sum_list (map snd (trait_dist entry)) = mass"
      by (auto simp add: accumulators_def list_all_iff)
    with update_person_accumulates [of entry one_gene two_genes have_trait q p]
    show ?thesis by simp
  qed
  have "\<forall>(p, entry) \<in> set probs. ?f p entry = Inr (projr (?f p entry))"
    using entry by fastforce
  moreover have "distinct (map fst probs)"
    using keys assms(2) by simp
  ultimately have result:
    "update probs one_gene two_genes have_trait q =
       Inr (map (\<lambda>(p, entry). (p, projr (?f p entry))) probs)"
    unfolding update_def by (intro update_each_Inr)
  have "accumulators (mass + q) names (map (\<lambda>(p, entry). (p, projr (?f p entry))) probs)"
    unfolding accumulators_def list_all_iff
  proof (intro conjI ballI)
    show "map fst (map (\<lambda>(p, entry). (p, projr (?f p entry))) probs) = names"
      using keys by (simp add: case_prod_unfold comp_def)
  next
    fix x
    assume "x \<in> set (map (\<lambda>(p, entry). (p, projr (?f p entry))) probs)"
    then obtain p e where mem: "(p, e) \<in> set probs" and x: "x = (p, projr (?f p e))"
      by auto
    from entry [OF mem] show "case x of (p, entry) \<Rightarrow>
          map fst (gene_dist entry) = [2, 1, 0] \<and>
          map fst (trait_dist entry) = [True, False] \<and>
          sum_list (map snd (gene_dist entry)) = mass + q \<and>
          sum_list (map snd (trait_dist entry)) = mass + q"
      by (auto simp add: x)
  qed
  with result show ?thesis
    by simp
qed

subsection \<open>Every joint probability is positive\<close>

lemma spec_prior_pos: "0 < spec_prior g"
  by (simp add: spec_prior_def)

lemma spec_trait_given_pos: "0 < spec_trait_given t g"
  by (simp add: spec_trait_given_def)

lemma spec_inherit_probability_bounds:
  "0 < spec_inherit_probability g \<and> spec_inherit_probability g < 1"
  by (simp add: spec_inherit_probability_def)

lemma spec_transmission_pos: "0 < spec_transmission g m f"
proof -
  have m: "0 < spec_inherit_probability m" "0 < 1 - spec_inherit_probability m"
    using spec_inherit_probability_bounds [of m] by simp_all
  have f: "0 < spec_inherit_probability f" "0 < 1 - spec_inherit_probability f"
    using spec_inherit_probability_bounds [of f] by simp_all
  show ?thesis
    using m f by (simp add: spec_transmission_def Let_def add_pos_pos)
qed

lemma joint_probability_loop_pos:
  assumes "set ks \<subseteq> fst ` set people" and "0 < probability"
  shows "\<exists>q. for_loop ks (joint_probability_body people one_gene two_genes have_trait)
           probability = Inr q \<and> 0 < q"
  using assms
proof (induction ks arbitrary: probability)
  case Nil
  then show ?case by simp
next
  case (Cons p ks)
  then have "p \<in> fst ` set people"
    by simp
  then obtain row where row: "map_of people p = Some row"
    by (metis domD dom_map_of_conv_image_fst)
  let ?factor = "if father row = None \<and> mother row = None then
                spec_prior (getGene (Some p) one_gene two_genes) *
                spec_trait_given (p \<in> have_trait) (getGene (Some p) one_gene two_genes)
              else
                spec_transmission (getGene (Some p) one_gene two_genes)
                  (getGene (mother row) one_gene two_genes)
                  (getGene (father row) one_gene two_genes) *
                spec_trait_given (p \<in> have_trait) (getGene (Some p) one_gene two_genes)"
  have "0 < ?factor"
    by (simp add: spec_prior_pos spec_trait_given_pos spec_transmission_pos)
  with Cons.prems(2) have pos: "0 < probability * ?factor"
    by (rule mult_pos_pos)
  have "set ks \<subseteq> fst ` set people"
    using Cons.prems(1) by simp
  from Cons.IH [OF this pos] show ?case
    by (simp only: for_loop.simps joint_probability_body_value [OF row] and_then.simps)
qed

lemma joint_probability_pos:
  "\<exists>q. joint_probability people one_gene two_genes have_trait = Inr q \<and> 0 < q"
  unfolding joint_probability_def by (rule joint_probability_loop_pos) simp_all

lemma accumulate_accumulates:
  assumes "accumulators mass names probs" and "distinct names"
  shows "\<exists>probs' q. accumulate people have_trait one_gene two_genes probs = Inr probs' \<and>
           0 < q \<and> accumulators (mass + q) names probs'"
proof -
  obtain q where q: "joint_probability people (set one_gene) (set two_genes) (set have_trait) =
      Inr q" "0 < q"
    using joint_probability_pos by blast
  from update_accumulates [OF assms, of "set one_gene" "set two_genes" "set have_trait" q]
  show ?thesis
    using q by (auto simp add: accumulate_def)
qed

lemma hypotheses_loop_accumulates:
  assumes "accumulators mass names probs" and "distinct names"
  shows "\<exists>probs' q. for_loop hs
           (\<lambda>(have_trait, one_gene, two_genes). accumulate people have_trait one_gene two_genes)
           probs = Inr probs' \<and>
         0 \<le> q \<and> (hs \<noteq> [] \<longrightarrow> 0 < q) \<and> accumulators (mass + q) names probs'"
  using assms(1)
proof (induction hs arbitrary: mass probs)
  case Nil
  then show ?case
    by (auto intro: exI [of _ 0])
next
  case (Cons h hs)
  obtain have_trait one_gene two_genes where h: "h = (have_trait, one_gene, two_genes)"
    by (cases h)
  from accumulate_accumulates [OF Cons.prems assms(2), of people have_trait one_gene two_genes]
  obtain probs1 q1 where step: "accumulate people have_trait one_gene two_genes probs = Inr probs1"
      "0 < q1" "accumulators (mass + q1) names probs1"
    by blast
  from Cons.IH [OF step(3)] obtain probs2 q2 where rest: "for_loop hs
           (\<lambda>(have_trait, one_gene, two_genes). accumulate people have_trait one_gene two_genes)
           probs1 = Inr probs2" "0 \<le> q2" "accumulators (mass + q1 + q2) names probs2"
    by blast
  have "0 < q1 + q2"
    using step(2) rest(2) by simp
  moreover have "accumulators (mass + (q1 + q2)) names probs2"
    using rest(3) by (simp add: add.assoc)
  ultimately show ?case
    using step(1) rest(1)
    by (intro exI [of _ probs2] exI [of _ "q1 + q2"]) (simp add: h)
qed

subsection \<open>Some hypothesis agrees with the evidence\<close>

lemma combinations_Cons_mono: "set (combinations xs r) \<subseteq> set (combinations (x # xs) r)"
proof (cases r)
  case 0
  then show ?thesis by simp
next
  case (Suc n)
  then show ?thesis by simp
qed

lemma filter_in_combinations: "filter P xs \<in> set (combinations xs (length (filter P xs)))"
proof (induction xs)
  case Nil
  then show ?case by simp
next
  case (Cons x xs)
  show ?case
  proof (cases "P x")
    case True
    with Cons show ?thesis by simp
  next
    case False
    with Cons combinations_Cons_mono [of xs "length (filter P xs)" x] show ?thesis
      by auto
  qed
qed

lemma filter_in_powerset: "filter P xs \<in> set (powerset xs)"
proof -
  have "length (filter P xs) \<in> set [0..<length xs + 1]"
    using length_filter_le [of P xs] by (simp add: le_eq_less_or_eq disj_commute)
  then show ?thesis
    unfolding powerset_def using filter_in_combinations [of P xs] by auto
qed

lemma Nil_in_powerset: "[] \<in> set (powerset xs)"
  using filter_in_powerset [of "\<lambda>x. False" xs] by simp

lemma hypotheses_intro:
  assumes "fails_evidence people (map fst people) (set have_trait) = Inr False"
    and "have_trait \<in> set (powerset (map fst people))"
    and "one_gene \<in> set (powerset (map fst people))"
    and "two_genes \<in> set (powerset (set_minus (map fst people) one_gene))"
  shows "(have_trait, one_gene, two_genes) \<in> set (hypotheses people)"
proof -
  have "(have_trait, one_gene, two_genes) \<in>
      (\<lambda>two_genes. (have_trait, one_gene, two_genes)) `
        set (powerset (set_minus (map fst people) one_gene))"
    using assms(4) by (rule imageI)
  with assms(1-3) show ?thesis
    unfolding hypotheses_def Let_def by (simp add: Bex_def) blast
qed

lemma hypotheses_nonempty: "hypotheses people \<noteq> []"
proof -
  define names where "names = map fst people"
  define ht where
    "ht = filter (\<lambda>p. \<exists>row. map_of people p = Some row \<and> trait row = Some True) names"
  have agree: "trait row = None \<or> trait row = Some (p \<in> set ht)"
    if row: "map_of people p = Some row" for p row
  proof (cases "trait row")
    case None
    then show ?thesis by simp
  next
    case (Some observed)
    have "p \<in> set names"
      unfolding names_def using row by (metis domI dom_map_of_conv_image_fst set_map)
    then have "(p \<in> set ht) = observed"
      using row Some by (auto simp add: ht_def)
    with Some show ?thesis by simp
  qed
  have "\<not> (\<exists>p \<in> fst ` set people. \<exists>row. map_of people p = Some row \<and>
      trait row \<noteq> None \<and> trait row \<noteq> Some (p \<in> set ht))"
    using agree by fastforce
  then have "fails_evidence people names (set ht) = Inr False"
    unfolding names_def fails_evidence_value by (simp only: )
  moreover have "ht \<in> set (powerset names)"
    unfolding ht_def by (rule filter_in_powerset)
  moreover have "[] \<in> set (powerset names)"
    by (rule Nil_in_powerset)
  moreover have "[] \<in> set (powerset (set_minus names []))"
    by (rule Nil_in_powerset)
  ultimately have "(ht, [], []) \<in> set (hypotheses people)"
    unfolding names_def by (rule hypotheses_intro)
  then show ?thesis
    by auto
qed

lemma powerset_complete:
  assumes "A \<subseteq> set xs"
  shows "filter (\<lambda>x. x \<in> A) xs \<in> set (powerset xs) \<and> set (filter (\<lambda>x. x \<in> A) xs) = A"
  using assms filter_in_powerset [of "\<lambda>x. x \<in> A" xs] by auto

text \<open>
  The enumeration leaves no hypothesis out: every trait set that agrees with the
  observations, with every pair of disjoint gene sets, is the hypothesis of some run of
  the innermost loop body.
\<close>

theorem enumeration_complete:
  assumes "H \<subseteq> fst ` set people" and "G1 \<subseteq> fst ` set people" and "G2 \<subseteq> fst ` set people"
    and "G1 \<inter> G2 = {}"
    and "\<forall>p row observed. map_of people p = Some row \<and> trait row = Some observed \<longrightarrow>
           (p \<in> H) = observed"
  shows "\<exists>(have_trait, one_gene, two_genes) \<in> set (hypotheses people).
           set have_trait = H \<and> set one_gene = G1 \<and> set two_genes = G2"
proof -
  define names where "names = map fst people"
  define ht where "ht = filter (\<lambda>x. x \<in> H) names"
  define og where "og = filter (\<lambda>x. x \<in> G1) names"
  define tg where "tg = filter (\<lambda>x. x \<in> G2) (set_minus names og)"
  have ht: "ht \<in> set (powerset names)" "set ht = H"
    unfolding ht_def using powerset_complete [of H names] assms(1) by (simp_all add: names_def)
  have og: "og \<in> set (powerset names)" "set og = G1"
    unfolding og_def using powerset_complete [of G1 names] assms(2) by (simp_all add: names_def)
  have "G2 \<subseteq> set (set_minus names og)"
    using assms(3, 4) og(2) by (auto simp add: set_minus_def names_def)
  then have tg: "tg \<in> set (powerset (set_minus names og))" "set tg = G2"
    unfolding tg_def using powerset_complete [of G2 "set_minus names og"] by simp_all
  have "\<not> (\<exists>p \<in> fst ` set people. \<exists>row. map_of people p = Some row \<and>
      trait row \<noteq> None \<and> trait row \<noteq> Some (p \<in> set ht))"
    using assms(5) ht(2) by fastforce
  then have "fails_evidence people names (set ht) = Inr False"
    unfolding names_def fails_evidence_value by (simp only: )
  then have "(ht, og, tg) \<in> set (hypotheses people)"
    using ht(1) og(1) tg(1) unfolding names_def by (rule hypotheses_intro)
  with ht(2) og(2) tg(2) show ?thesis
    by blast
qed

theorem enumeration_complete_witness:
  "{''c''} \<subseteq> fst ` set
     [(''a'', \<lparr>name = ''a'', mother = None, father = None, trait = None\<rparr>),
      (''b'', \<lparr>name = ''b'', mother = None, father = None, trait = Some False\<rparr>),
      (''c'', \<lparr>name = ''c'', mother = Some ''a'', father = Some ''b'', trait = Some True\<rparr>)] \<and>
   {''a''} \<inter> {''b'', ''c''} = ({} :: string set) \<and>
   ([''c''], [''a''], [''b'', ''c'']) \<in> set (hypotheses
     [(''a'', \<lparr>name = ''a'', mother = None, father = None, trait = None\<rparr>),
      (''b'', \<lparr>name = ''b'', mother = None, father = None, trait = Some False\<rparr>),
      (''c'', \<lparr>name = ''c'', mother = Some ''a'', father = Some ''b'', trait = Some True\<rparr>)])"
proof -
  let ?P = "[(''a'', \<lparr>name = ''a'', mother = None, father = None, trait = None\<rparr>),
      (''b'', \<lparr>name = ''b'', mother = None, father = None, trait = Some False\<rparr>),
      (''c'', \<lparr>name = ''c'', mother = Some ''a'', father = Some ''b'', trait = Some True\<rparr>)]"
  have sub: "{''c''} \<subseteq> fst ` set ?P" "{''a''} \<subseteq> fst ` set ?P" "{''b'', ''c''} \<subseteq> fst ` set ?P"
    by simp_all
  have dis: "{''a''} \<inter> {''b'', ''c''} = ({} :: string set)"
    by simp
  have ev: "\<forall>p row observed. map_of ?P p = Some row \<and> trait row = Some observed \<longrightarrow>
           (p \<in> {''c''}) = observed"
    by auto
  have mem: "([''c''], [''a''], [''b'', ''c'']) \<in> set (hypotheses ?P)"
    by code_simp
  from enumeration_complete [OF sub dis ev] sub(1) dis mem show ?thesis
    by simp
qed

section \<open>Runs of main\<close>

text \<open>
  Claim C8. For the empty pedigree the enumeration runs its body for one hypothesis, the
  empty trait set with the empty pair of gene sets, and ends with the empty table;
  \<open>main\<close> raises no exception and returns the empty table.
\<close>

theorem main_empty:
  "hypotheses [] = [([], [], [])] \<and>
   enumeration [] (initial_probabilities []) = Inr [] \<and>
   main [] = Inr []"
  by (simp add: main_def hypotheses_def loop_defs)

lemma initial_accumulators: "accumulators 0 (map fst people) (initial_probabilities people)"
  by (simp add: accumulators_def initial_probabilities_def list_all_iff comp_def)

text \<open>
  Claim C6, as the code has it. \<open>normalize\<close> does not look at a sum before it divides.
  When the gene-count buckets or the trait buckets of some person sum to zero, the division
  raises \<open>ZeroDivisionError\<close>, which nothing catches: the run ends with that exception and
  no table is returned. In the table that the enumeration of \<open>main\<close> hands to
  \<open>normalize\<close> the buckets of every distribution sum to the accumulated probability mass,
  and that mass is zero only if no hypothesis was accumulated.
\<close>

theorem normalize_divides_unchecked:
  "(wf_probabilities probs \<and> (p, entry) \<in> set probs \<and>
      (gene_dist entry \<noteq> [] \<and> sum_list (map snd (gene_dist entry)) = 0 \<or>
       trait_dist entry \<noteq> [] \<and> sum_list (map snd (trait_dist entry)) = 0) \<longrightarrow>
      normalize probs = Inl ZeroDivisionError) \<and>
   (distinct (map fst people) \<longrightarrow>
      (\<exists>table mass.
         enumeration people (initial_probabilities people) = Inr table \<and>
         accumulators mass (map fst people) table \<and>
         (mass = 0 \<longrightarrow> hypotheses people = [])))"
proof (intro conjI impI)
  assume zero: "wf_probabilities probs \<and> (p, entry) \<in> set probs \<and>
      (gene_dist entry \<noteq> [] \<and> sum_list (map snd (gene_dist entry)) = 0 \<or>
       trait_dist entry \<noteq> [] \<and> sum_list (map snd (trait_dist entry)) = 0)"
  then have wf: "wf_probabilities probs" and mem: "(p, entry) \<in> set probs"
    by simp_all
  show "normalize probs = Inl ZeroDivisionError"
    unfolding normalize_def
  proof (rule update_each_Inl)
    show "distinct (map fst probs)"
      using wf by (simp add: wf_probabilities_def)
    show "\<forall>(k, v) \<in> set probs.
        normalize_person k v = Inl ZeroDivisionError \<or> (\<exists>w. normalize_person k v = Inr w)"
    proof (clarify)
      fix k v
      assume "(k, v) \<in> set probs" and "\<not> (\<exists>w. normalize_person k v = Inr w)"
      moreover from this(1) wf have "distinct (map fst (gene_dist v))"
        and "distinct (map fst (trait_dist v))"
        by (auto simp add: wf_probabilities_def list_all_iff)
      ultimately show "normalize_person k v = Inl ZeroDivisionError"
        using normalize_person_cases [of v k] by blast
    qed
    have "distinct (map fst (gene_dist entry))" and "distinct (map fst (trait_dist entry))"
      using wf mem by (auto simp add: wf_probabilities_def list_all_iff)
    then have "normalize_person p entry = Inl ZeroDivisionError"
      using zero by (intro normalize_person_zero) simp_all
    with mem show "\<exists>(k, v) \<in> set probs. normalize_person k v = Inl ZeroDivisionError"
      by auto
  qed
next
  assume names: "distinct (map fst people)"
  from hypotheses_loop_accumulates [OF initial_accumulators names, of "hypotheses people" people]
  obtain table mass where "for_loop (hypotheses people)
           (\<lambda>(have_trait, one_gene, two_genes). accumulate people have_trait one_gene two_genes)
           (initial_probabilities people) = Inr table"
    and "hypotheses people \<noteq> [] \<longrightarrow> 0 < mass"
    and "accumulators (0 + mass) (map fst people) table"
    by blast
  then have "enumeration people (initial_probabilities people) = Inr table \<and>
         accumulators mass (map fst people) table \<and>
         (mass = 0 \<longrightarrow> hypotheses people = [])"
    by (auto simp add: enumeration_hypotheses)
  then show "\<exists>table mass.
         enumeration people (initial_probabilities people) = Inr table \<and>
         accumulators mass (map fst people) table \<and>
         (mass = 0 \<longrightarrow> hypotheses people = [])"
    by blast
qed

theorem normalize_divides_unchecked_witness:
  "wf_probabilities
     [(''a'', \<lparr>gene_dist = [(2, 1), (1, 2), (0, 1)], trait_dist = [(True, 3), (False, 1)]\<rparr>),
      (''b'', \<lparr>gene_dist = [(2, 1), (1, - 1), (0, 0)], trait_dist = [(True, 0), (False, 0)]\<rparr>)] \<and>
   sum_list (map snd [(2::nat, 1::real), (1, - 1), (0, 0)]) = 0 \<and>
   normalize
     [(''a'', \<lparr>gene_dist = [(2, 1), (1, 2), (0, 1)], trait_dist = [(True, 3), (False, 1)]\<rparr>),
      (''b'', \<lparr>gene_dist = [(2, 1), (1, - 1), (0, 0)], trait_dist = [(True, 0), (False, 0)]\<rparr>)] =
   Inl ZeroDivisionError \<and>
   distinct (map fst [(''a'', \<lparr>name = ''a'', mother = None, father = None, trait = Some True\<rparr>)]) \<and>
   (\<exists>table mass.
      enumeration [(''a'', \<lparr>name = ''a'', mother = None, father = None, trait = Some True\<rparr>)]
        (initial_probabilities
          [(''a'', \<lparr>name = ''a'', mother = None, father = None, trait = Some True\<rparr>)]) =
        Inr table \<and>
      accumulators mass [''a''] table \<and> mass \<noteq> 0)"
proof -
  let ?T = "[(''a'', \<lparr>gene_dist = [(2, 1), (1, 2), (0, 1)], trait_dist = [(True, 3), (False, 1)]\<rparr>),
      (''b'', \<lparr>gene_dist = [(2::nat, 1::real), (1, - 1), (0, 0)],
                trait_dist = [(True, 0), (False, 0)]\<rparr>)]"
  let ?e = "\<lparr>gene_dist = [(2::nat, 1::real), (1, - 1), (0, 0)],
             trait_dist = [(True, 0::real), (False, 0)]\<rparr>"
  let ?P = "[(''a'', \<lparr>name = ''a'', mother = None, father = None, trait = Some True\<rparr>)]"
  note both = normalize_divides_unchecked [of ?T "''b''" ?e ?P]
  have wf: "wf_probabilities ?T"
    by (simp add: wf_probabilities_def)
  then have raised: "normalize ?T = Inl ZeroDivisionError"
    using both [THEN conjunct1] by simp
  have "hypotheses ?P \<noteq> []"
    by code_simp
  then have "\<exists>table mass. enumeration ?P (initial_probabilities ?P) = Inr table \<and>
      accumulators mass [''a''] table \<and> mass \<noteq> 0"
    using both [THEN conjunct2] by auto
  with wf raised show ?thesis
    by simp
qed

text \<open>
  The table of a person whose buckets are all zero: the exception of \<open>normalize\<close> is
  the one of the division.
\<close>

theorem normalize_zero_counterexample:
  "normalize [(''a'', \<lparr>gene_dist = [(2, 0), (1, 0), (0, 0)],
                        trait_dist = [(True, 0), (False, 0)]\<rparr>)] = Inl ZeroDivisionError"
  by (simp add: normalize_def update_each_def body_defs)

text \<open>
  With exact arithmetic, on every pedigree \<open>main\<close> runs to its end without an exception: some hypothesis
  agrees with the observations and every joint probability is positive, so no sum that
  \<open>normalize\<close> divides by is zero. The table it returns has the persons of the pedigree,
  and the gene-count probabilities and the trait probabilities of every person sum to 1.
\<close>

theorem main_total:
  assumes "distinct (map fst people)"
  shows "\<exists>table. main people = Inr table \<and> map fst table = map fst people \<and>
           (\<forall>(p, entry) \<in> set table.
              sum_list (map snd (gene_dist entry)) = 1 \<and>
              sum_list (map snd (trait_dist entry)) = 1)"
proof -
  let ?names = "map fst people"
  from hypotheses_loop_accumulates [OF initial_accumulators assms, of "hypotheses people" people]
  obtain probs q where loop: "for_loop (hypotheses people)
           (\<lambda>(have_trait, one_gene, two_genes). accumulate people have_trait one_gene two_genes)
           (initial_probabilities people) = Inr probs"
    and q: "hypotheses people \<noteq> [] \<longrightarrow> 0 < q" and acc: "accumulators (0 + q) ?names probs"
    by blast
  have pos: "0 < q"
    using q hypotheses_nonempty by simp
  have enum: "enumeration people (initial_probabilities people) = Inr probs"
    using loop by (simp only: enumeration_hypotheses)
  have keys: "map fst probs = ?names"
    using acc by (simp add: accumulators_def)
  have entry: "map fst (gene_dist entry) = [2, 1, 0] \<and>
      map fst (trait_dist entry) = [True, False] \<and>
      sum_list (map snd (gene_dist entry)) = q \<and>
      sum_list (map snd (trait_dist entry)) = q"
    if "(p, entry) \<in> set probs" for p entry
    using that acc by (auto simp add: accumulators_def list_all_iff)
  have "\<forall>(p, entry) \<in> set probs. normalize_person p entry = Inr (spec_normalized entry)"
  proof (clarify)
    fix p e
    assume "(p, e) \<in> set probs"
    from entry [OF this] pos show "normalize_person p e = Inr (spec_normalized e)"
      by (intro normalize_person_nonzero) simp_all
  qed
  moreover have "distinct (map fst probs)"
    using keys assms by simp
  ultimately have norm:
    "normalize probs = Inr (map (\<lambda>(p, entry). (p, spec_normalized entry)) probs)"
    unfolding normalize_def by (intro update_each_Inr)
  let ?table = "map (\<lambda>(p, entry). (p, spec_normalized entry)) probs"
  have "main people = Inr ?table"
    by (simp add: main_def enum norm)
  moreover have "map fst ?table = ?names"
    using keys by (simp add: case_prod_unfold comp_def)
  moreover have "\<forall>(p, entry) \<in> set ?table.
              sum_list (map snd (gene_dist entry)) = 1 \<and>
              sum_list (map snd (trait_dist entry)) = 1"
  proof (clarify)
    fix p e'
    assume "(p, e') \<in> set ?table"
    then obtain e where mem: "(p, e) \<in> set probs" and e': "e' = spec_normalized e"
      by auto
    from entry [OF mem] pos show "sum_list (map snd (gene_dist e')) = 1 \<and>
        sum_list (map snd (trait_dist e')) = 1"
      by (simp add: e' spec_normalized_def spec_scaled_sum)
  qed
  ultimately show ?thesis
    by blast
qed

theorem main_total_witness:
  "distinct (map fst
     [(''a'', \<lparr>name = ''a'', mother = None, father = None, trait = Some True\<rparr>),
      (''b'', \<lparr>name = ''b'', mother = Some ''a'', father = None, trait = Some False\<rparr>)]) \<and>
   (\<exists>table. main
     [(''a'', \<lparr>name = ''a'', mother = None, father = None, trait = Some True\<rparr>),
      (''b'', \<lparr>name = ''b'', mother = Some ''a'', father = None, trait = Some False\<rparr>)] =
     Inr table \<and> map fst table = [''a'', ''b''])"
proof -
  let ?P = "[(''a'', \<lparr>name = ''a'', mother = None, father = None, trait = Some True\<rparr>),
      (''b'', \<lparr>name = ''b'', mother = Some ''a'', father = None, trait = Some False\<rparr>)]"
  have d: "distinct (map fst ?P)"
    by simp
  from main_total [OF d] d show ?thesis
    by auto
qed

section \<open>The values computed in binary64\<close>

lemmas f64_defs = to_double_def round64_def ilog2_def compute_bitlen two_powi_def
  round_half_even_def Let_def sub64_def sum64_def infinity_def lit_def

lemmas prog64_defs = main64_def enumeration64_def initial_probabilities64_def powerset_def
  fails_evidence_def accumulate64_def set_minus_def joint_probability64_def update64_def
  update_each_def normalize64_def joint_probability_body64_def getitem_def setitem_def getGene_def
  PROBS64_trait_at_def PROBS64_gene_def PROBS64_trait_def PROBS64_mutation_def inherit64_def
  update_person64_def iadd64_def normalize_person64_def divide_all64_def

lemmas inherit64_eval = inherit64_def PROBS64_mutation_def f64_defs

lemma inherit64_values:
  "inherit64 0 True = Some (Finite (5764607523034235 / 576460752303423488))"
  "inherit64 0 False = Some (Finite (4458563631096791 / 4503599627370496))"
  "inherit64 (Suc 0) True = Some (Finite (1 / 2))"
  "inherit64 (Suc 0) False = Some (Finite (1 / 2))"
  "inherit64 2 True = Some (Finite (4458563631096791 / 4503599627370496))"
  "inherit64 2 False = Some (Finite (5764607523034235 / 576460752303423488))"
  by (simp_all add: inherit64_eval)

lemma complement64_values:
  "map_option (sub64 (Finite 1)) (inherit64 0 True) = Some (Finite (4458563631096791 / 4503599627370496))"
  "map_option (sub64 (Finite 1)) (inherit64 (Suc 0) True) = Some (Finite (1 / 2))"
  "map_option (sub64 (Finite 1)) (inherit64 2 True) = Some (Finite (45035996273705 / 4503599627370496))"
  by (simp_all add: inherit64_eval)

lemma products64_0_0:
  "py_mul64 (inherit64 0 False) (inherit64 0 False) = Inr (Finite (4413977994785823 / 4503599627370496))"
  "py_mul64 (map_option (sub64 (Finite 1)) (inherit64 0 True))
     (map_option (sub64 (Finite 1)) (inherit64 0 True)) = Inr (Finite (4413977994785823 / 4503599627370496))"
  by (simp_all add: inherit64_eval)

lemma products64_0_1:
  "py_mul64 (inherit64 0 False) (inherit64 (Suc 0) False) = Inr (Finite (4458563631096791 / 9007199254740992))"
  "py_mul64 (map_option (sub64 (Finite 1)) (inherit64 0 True))
     (map_option (sub64 (Finite 1)) (inherit64 (Suc 0) True)) = Inr (Finite (4458563631096791 / 9007199254740992))"
  by (simp_all add: inherit64_eval)

lemma products64_0_2:
  "py_mul64 (inherit64 0 False) (inherit64 2 False) = Inr (Finite (5706961447803893 / 576460752303423488))"
  "py_mul64 (map_option (sub64 (Finite 1)) (inherit64 0 True))
     (map_option (sub64 (Finite 1)) (inherit64 2 True)) = Inr (Finite (2853480723901949 / 288230376151711744))"
  by (simp_all add: inherit64_eval)

lemma products64_1_0:
  "py_mul64 (inherit64 (Suc 0) False) (inherit64 0 False) = Inr (Finite (4458563631096791 / 9007199254740992))"
  "py_mul64 (map_option (sub64 (Finite 1)) (inherit64 (Suc 0) True))
     (map_option (sub64 (Finite 1)) (inherit64 0 True)) = Inr (Finite (4458563631096791 / 9007199254740992))"
  by (simp_all add: inherit64_eval)

lemma products64_1_1:
  "py_mul64 (inherit64 (Suc 0) False) (inherit64 (Suc 0) False) = Inr (Finite (1 / 4))"
  "py_mul64 (map_option (sub64 (Finite 1)) (inherit64 (Suc 0) True))
     (map_option (sub64 (Finite 1)) (inherit64 (Suc 0) True)) = Inr (Finite (1 / 4))"
  by (simp_all add: inherit64_eval)

lemma products64_1_2:
  "py_mul64 (inherit64 (Suc 0) False) (inherit64 2 False) = Inr (Finite (5764607523034235 / 1152921504606846976))"
  "py_mul64 (map_option (sub64 (Finite 1)) (inherit64 (Suc 0) True))
     (map_option (sub64 (Finite 1)) (inherit64 2 True)) = Inr (Finite (45035996273705 / 9007199254740992))"
  by (simp_all add: inherit64_eval)

lemma products64_2_0:
  "py_mul64 (inherit64 2 False) (inherit64 0 False) = Inr (Finite (5706961447803893 / 576460752303423488))"
  "py_mul64 (map_option (sub64 (Finite 1)) (inherit64 2 True))
     (map_option (sub64 (Finite 1)) (inherit64 0 True)) = Inr (Finite (2853480723901949 / 288230376151711744))"
  by (simp_all add: inherit64_eval)

lemma products64_2_1:
  "py_mul64 (inherit64 2 False) (inherit64 (Suc 0) False) = Inr (Finite (5764607523034235 / 1152921504606846976))"
  "py_mul64 (map_option (sub64 (Finite 1)) (inherit64 2 True))
     (map_option (sub64 (Finite 1)) (inherit64 (Suc 0) True)) = Inr (Finite (45035996273705 / 9007199254740992))"
  by (simp_all add: inherit64_eval)

lemma products64_2_2:
  "py_mul64 (inherit64 2 False) (inherit64 2 False) = Inr (Finite (7378697629483821 / 73786976294838206464))"
  "py_mul64 (map_option (sub64 (Finite 1)) (inherit64 2 True))
     (map_option (sub64 (Finite 1)) (inherit64 2 True)) = Inr (Finite (3689348814741917 / 36893488147419103232))"
  by (simp_all add: inherit64_eval)

lemma products64_close:
  assumes "g \<in> {0, 1, 2}" and "h \<in> {0, 1, 2}"
  shows "\<exists>a b.
      py_mul64 (inherit64 g False) (inherit64 h False) = Inr (Finite a) \<and>
      py_mul64 (map_option (sub64 (Finite 1)) (inherit64 g True))
        (map_option (sub64 (Finite 1)) (inherit64 h True)) = Inr (Finite b) \<and>
      \<bar>a - b\<bar> \<le> 1 / 10 ^ 17 \<and> (g \<noteq> 2 \<and> h \<noteq> 2 \<longrightarrow> a = b)"
proof -
  from assms have "(g = 0 \<or> g = Suc 0 \<or> g = 2) \<and> (h = 0 \<or> h = Suc 0 \<or> h = 2)"
    by auto
  then consider "g = 0" "h = 0" | "g = 0" "h = Suc 0" | "g = 0" "h = 2"
    | "g = Suc 0" "h = 0" | "g = Suc 0" "h = Suc 0" | "g = Suc 0" "h = 2"
    | "g = 2" "h = 0" | "g = 2" "h = Suc 0" | "g = 2" "h = 2"
    by blast
  then show ?thesis
  proof cases
    assume "g = 0" and "h = 0"
    then show ?thesis
      using products64_0_0
      by (intro exI [of _ "4413977994785823 / 4503599627370496"] exI [of _ "4413977994785823 / 4503599627370496"]) simp
  next
    assume "g = 0" and "h = Suc 0"
    then show ?thesis
      using products64_0_1
      by (intro exI [of _ "4458563631096791 / 9007199254740992"] exI [of _ "4458563631096791 / 9007199254740992"]) simp
  next
    assume "g = 0" and "h = 2"
    then show ?thesis
      using products64_0_2
      by (intro exI [of _ "5706961447803893 / 576460752303423488"] exI [of _ "2853480723901949 / 288230376151711744"]) simp
  next
    assume "g = Suc 0" and "h = 0"
    then show ?thesis
      using products64_1_0
      by (intro exI [of _ "4458563631096791 / 9007199254740992"] exI [of _ "4458563631096791 / 9007199254740992"]) simp
  next
    assume "g = Suc 0" and "h = Suc 0"
    then show ?thesis
      using products64_1_1
      by (intro exI [of _ "1 / 4"] exI [of _ "1 / 4"]) simp
  next
    assume "g = Suc 0" and "h = 2"
    then show ?thesis
      using products64_1_2
      by (intro exI [of _ "5764607523034235 / 1152921504606846976"] exI [of _ "45035996273705 / 9007199254740992"]) simp
  next
    assume "g = 2" and "h = 0"
    then show ?thesis
      using products64_2_0
      by (intro exI [of _ "5706961447803893 / 576460752303423488"] exI [of _ "2853480723901949 / 288230376151711744"]) simp
  next
    assume "g = 2" and "h = Suc 0"
    then show ?thesis
      using products64_2_1
      by (intro exI [of _ "5764607523034235 / 1152921504606846976"] exI [of _ "45035996273705 / 9007199254740992"]) simp
  next
    assume "g = 2" and "h = 2"
    then show ?thesis
      using products64_2_2
      by (intro exI [of _ "7378697629483821 / 73786976294838206464"] exI [of _ "3689348814741917 / 36893488147419103232"]) simp
  qed
qed

text \<open>
  Claim C9, as the code has it. In the arithmetic of the program, \<open>inherit\<close> with the
  second argument false returns one minus what it returns with the second argument true
  for the parent gene counts 0 and 1. For the count 2 it returns the mutation constant
  0.01, while one minus \<open>inherit(2, True)\<close>, that is \<open>1 - (1 - 0.01)\<close>, is five units in
  the last place larger, by \<open>5 * 2 ^ -59\<close>. Hence the product that
  \<open>joint_probability\<close> forms for a child without a copy is the product of the two
  complements when neither parent has two copies, and differs from it by less than
  \<open>10 ^ -17\<close> otherwise.
\<close>

theorem inherit64_complement:
  "map_option (sub64 (Finite 1)) (inherit64 0 True) = inherit64 0 False \<and>
   map_option (sub64 (Finite 1)) (inherit64 1 True) = inherit64 1 False \<and>
   inherit64 2 False = Some (Finite (5764607523034235 / 2 ^ 59)) \<and>
   map_option (sub64 (Finite 1)) (inherit64 2 True) = Some (Finite (5764607523034240 / 2 ^ 59)) \<and>
   (\<forall>g \<in> {0, 1, 2}. \<forall>h \<in> {0, 1, 2}. \<exists>a b.
      py_mul64 (inherit64 g False) (inherit64 h False) = Inr (Finite a) \<and>
      py_mul64 (map_option (sub64 (Finite 1)) (inherit64 g True))
        (map_option (sub64 (Finite 1)) (inherit64 h True)) = Inr (Finite b) \<and>
      \<bar>a - b\<bar> \<le> 1 / 10 ^ 17 \<and> (g \<noteq> 2 \<and> h \<noteq> 2 \<longrightarrow> a = b))"
proof (intro conjI ballI)
  show "map_option (sub64 (Finite 1)) (inherit64 0 True) = inherit64 0 False"
    using inherit64_values(2) complement64_values(1) by simp
  show "map_option (sub64 (Finite 1)) (inherit64 1 True) = inherit64 1 False"
    using inherit64_values(4) complement64_values(2) by simp
  show "inherit64 2 False = Some (Finite (5764607523034235 / 2 ^ 59))"
    using inherit64_values(6) by simp
  show "map_option (sub64 (Finite 1)) (inherit64 2 True) =
      Some (Finite (5764607523034240 / 2 ^ 59))"
    using complement64_values(3) by simp
next
  fix g h :: nat
  assume "g \<in> {0, 1, 2}" and "h \<in> {0, 1, 2}"
  then show "\<exists>a b.
      py_mul64 (inherit64 g False) (inherit64 h False) = Inr (Finite a) \<and>
      py_mul64 (map_option (sub64 (Finite 1)) (inherit64 g True))
        (map_option (sub64 (Finite 1)) (inherit64 h True)) = Inr (Finite b) \<and>
      \<bar>a - b\<bar> \<le> 1 / 10 ^ 17 \<and> (g \<noteq> 2 \<and> h \<noteq> 2 \<longrightarrow> a = b)"
    by (rule products64_close)
qed

theorem inherit64_complement_witness:
  "(2::nat) \<in> {0, 1, 2} \<and> (0::nat) \<in> {0, 1, 2} \<and>
   (\<exists>a b. py_mul64 (inherit64 2 False) (inherit64 0 False) = Inr (Finite a) \<and>
      py_mul64 (map_option (sub64 (Finite 1)) (inherit64 2 True))
        (map_option (sub64 (Finite 1)) (inherit64 0 True)) = Inr (Finite b) \<and>
      \<bar>a - b\<bar> \<le> 1 / 10 ^ 17 \<and> a \<noteq> b)"
proof -
  have "\<forall>g \<in> {0, 1, 2}. \<forall>h \<in> {0, 1, 2}. \<exists>a b.
      py_mul64 (inherit64 g False) (inherit64 h False) = Inr (Finite a) \<and>
      py_mul64 (map_option (sub64 (Finite 1)) (inherit64 g True))
        (map_option (sub64 (Finite 1)) (inherit64 h True)) = Inr (Finite b) \<and>
      \<bar>a - b\<bar> \<le> 1 / 10 ^ 17 \<and> (g \<noteq> 2 \<and> h \<noteq> 2 \<longrightarrow> a = b)"
    using inherit64_complement by (elim conjE)
  then obtain a b where ab:
      "py_mul64 (inherit64 2 False) (inherit64 0 False) = Inr (Finite a)"
      "py_mul64 (map_option (sub64 (Finite 1)) (inherit64 2 True))
        (map_option (sub64 (Finite 1)) (inherit64 0 True)) = Inr (Finite b)"
      "\<bar>a - b\<bar> \<le> 1 / 10 ^ 17"
    by fastforce
  from ab(1, 2) products64_2_0 have "a \<noteq> b"
    by simp
  with ab show ?thesis
    by auto
qed

text \<open>
  For two copies the two values differ: the equality of the claim fails as stated.
\<close>

theorem inherit64_complement_counterexample:
  "inherit64 2 False \<noteq> map_option (sub64 (Finite 1)) (inherit64 2 True)"
  unfolding inherit64_values(6) complement64_values(3) by simp

lemma founder64_run:
  "main64 [(p, \<lparr>name = n, mother = None, father = None, trait = None\<rparr>)] =
     Inr [(p, \<lparr>gene_dist64 =
                 [(2, Finite (5764607523034235 / 2 ^ 59)),
                  (1, Finite (8646911284551353 / 2 ^ 58)),
                  (0, Finite (1080863910568919 / 2 ^ 50))],
               trait_dist64 =
                 [(True, Finite (4741389687695659 / 2 ^ 57)),
                  (False, Finite (8710862399260013 / 2 ^ 53))]\<rparr>)]"
  by (simp add: prog64_defs f64_defs)

text \<open>
  Claim C2, as the code has it. For a pedigree of one founder whose trait was not
  observed, \<open>main\<close> returns the gene distribution \<open>{2: 0.01, 1: 0.030000000000000002,
  0: 0.96}\<close> and the trait distribution \<open>{True: 0.032900000000000006, False: 0.9671}\<close>.
  The probabilities of no copy and of two copies are the prior; that of one copy is the
  binary64 value next above the prior 0.03. The probability of the trait is the binary64
  value next above \<open>0.96 * 0.01 + 0.03 * 0.56 + 0.01 * 0.65\<close>, and the probability of its
  absence is the complement of that sum.
\<close>

theorem founder64_prior:
  "main64 [(p, \<lparr>name = n, mother = None, father = None, trait = None\<rparr>)] =
     Inr [(p, \<lparr>gene_dist64 =
                 [(2, lit 0.01), (1, Finite (8646911284551353 / 2 ^ 58)), (0, lit 0.96)],
               trait_dist64 =
                 [(True, Finite (4741389687695659 / 2 ^ 57)),
                  (False, sub64 (Finite 1) spec64_founder_trait)]\<rparr>)] \<and>
   lit 0.03 = Finite (8646911284551352 / 2 ^ 58) \<and>
   spec64_founder_trait = Finite (4741389687695658 / 2 ^ 57)"
  by (simp add: founder64_run spec64_founder_trait_def f64_defs)

text \<open>
  The table that the claim states is not the one that the run returns.
\<close>

theorem founder64_prior_counterexample:
  "main64 [(''a'', \<lparr>name = ''a'', mother = None, father = None, trait = None\<rparr>)] \<noteq>
     Inr [(''a'', \<lparr>gene_dist64 = [(2, lit 0.01), (1, lit 0.03), (0, lit 0.96)],
               trait_dist64 =
                 [(True, spec64_founder_trait),
                  (False, sub64 (Finite 1) spec64_founder_trait)]\<rparr>)]"
  by (simp add: founder64_run spec64_founder_trait_def f64_defs)

end
